theory Spec2Isabelle
  imports Complex_Main "HOL-Library.AList" "HOL-Library.Multiset"
begin

section \<open>Python values\<close>

text \<open>
  The agents exchange untyped Python dictionaries. A value is modelled up to its JSON
  serialisation (what \<^verbatim>\<open>json.dumps(..., default=str)\<close> followed by \<^verbatim>\<open>json.loads\<close>
  gives back): a dictionary is an association list in insertion order with string keys,
  a float is a real number. A pydantic model is identified with its \<^verbatim>\<open>.dict()\<close>.
\<close>

datatype jval =
    JNull
  | JBool bool
  | JInt int
  | JNum real
  | JStr string
  | JList "jval list"
  | JDict "(string \<times> jval) list"

type_synonym dict = "(string \<times> jval) list"

text \<open>The exceptions the modelled code can raise; \<open>ExternalError\<close> is any exception
  raised inside a collaborator (language model, network).\<close>

datatype py_error =
    ZeroDivisionError
  | TypeError
  | AttributeError
  | KeyError
  | ValueError
  | ValidationError
  | UnboundLocalError
  | ExternalError

definition bindE :: "py_error + 'a \<Rightarrow> ('a \<Rightarrow> py_error + 'b) \<Rightarrow> py_error + 'b" where
  "bindE x f = (case x of Inl e \<Rightarrow> Inl e | Inr v \<Rightarrow> f v)"

text \<open>Truth value of a Python object (\<^verbatim>\<open>if x:\<close>, \<^verbatim>\<open>x and y\<close>, \<^verbatim>\<open>not x\<close>).\<close>

fun truthy :: "jval \<Rightarrow> bool" where
  "truthy JNull = False"
| "truthy (JBool b) = b"
| "truthy (JInt i) = (i \<noteq> 0)"
| "truthy (JNum r) = (r \<noteq> 0)"
| "truthy (JStr s) = (s \<noteq> [])"
| "truthy (JList xs) = (xs \<noteq> [])"
| "truthy (JDict d) = (d \<noteq> [])"

text \<open>\<^verbatim>\<open>d.get(k)\<close> and \<^verbatim>\<open>d.get(k, default)\<close> on a dictionary.\<close>

definition dict_get :: "dict \<Rightarrow> string \<Rightarrow> jval" where
  "dict_get d k = (case map_of d k of Some v \<Rightarrow> v | None \<Rightarrow> JNull)"

definition dict_get_default :: "dict \<Rightarrow> string \<Rightarrow> jval \<Rightarrow> jval" where
  "dict_get_default d k dflt = (case map_of d k of Some v \<Rightarrow> v | None \<Rightarrow> dflt)"

text \<open>\<^verbatim>\<open>d[k] = v\<close>: an existing key keeps its position, a new key goes to the end.\<close>

definition dict_set :: "dict \<Rightarrow> string \<Rightarrow> jval \<Rightarrow> dict" where
  "dict_set d k v = AList.update k v d"

text \<open>\<^verbatim>\<open>d.update(u)\<close>: every item of \<open>u\<close> is assigned in turn.\<close>

definition dict_update :: "dict \<Rightarrow> dict \<Rightarrow> dict" where
  "dict_update d u = fold (\<lambda>(k, v) acc. dict_set acc k v) u d"

section \<open>Session store (memory/redis\_memory.py)\<close>

text \<open>
  \<open>redis_client\<close> tells whether the connection made in \<^verbatim>\<open>__init__\<close> succeeded;
  \<open>storage\<close> is the Redis database when it did and \<^verbatim>\<open>_fallback_storage\<close> otherwise.
  Redis holds JSON text, so what is read back is a copy; the fallback dictionary holds the
  Python object itself. No time passes inside the model: a key does not expire.
\<close>

record redis_memory =
  redis_client :: bool
  storage :: "string \<rightharpoonup> dict"

text \<open>The keys \<^verbatim>\<open>f"session:{session_id}"\<close> and \<^verbatim>\<open>f"workspace:{session_id}"\<close>.\<close>

definition session_key :: "string \<Rightarrow> string" where
  "session_key session_id = ''session:'' @ session_id"

definition workspace_key :: "string \<Rightarrow> string" where
  "workspace_key session_id = ''workspace:'' @ session_id"

definition set_session_context :: "redis_memory \<Rightarrow> string \<Rightarrow> dict \<Rightarrow> redis_memory" where
  "set_session_context m session_id context =
     (let key = session_key session_id in
      if redis_client m then m\<lparr>storage := (storage m)(key \<mapsto> context)\<rparr>
      else m\<lparr>storage := (storage m)(key \<mapsto> context)\<rparr>)"

definition get_session_context :: "redis_memory \<Rightarrow> string \<Rightarrow> dict option" where
  "get_session_context m session_id =
     (let key = session_key session_id in
      if redis_client m then
        (case storage m key of Some data \<Rightarrow> Some data | None \<Rightarrow> None)
      else storage m key)"

definition update_session_context :: "redis_memory \<Rightarrow> string \<Rightarrow> dict \<Rightarrow> redis_memory" where
  "update_session_context m session_id updates =
     (let context = (case get_session_context m session_id of
                       Some c \<Rightarrow> if c \<noteq> [] then c else []
                     | None \<Rightarrow> [])
      in set_session_context m session_id (dict_update context updates))"

section \<open>Analytics agent (agents/analytics\_agent.py)\<close>

text \<open>Rows of the tables the agent queries; a time stamp is a number of microseconds.\<close>

record job_posting_db =
  jp_job_id :: string
  jp_relevance_score :: "real option"

record application_db =
  app_application_id :: string
  app_user_id :: string
  app_job_id :: string
  app_status :: string
  app_viewed_at :: "int option"
  app_interview_at :: "int option"
  app_created_at :: int
  app_updated_at :: int
  app_job :: "job_posting_db option"

record kpi_metrics =
  kpi_user_id :: string
  period_start :: int
  period_end :: int
  total_applications :: nat
  applications_viewed :: nat
  interviews_scheduled :: nat
  offers_received :: nat
  average_relevance_score :: real
  click_through_rate :: real
  interview_rate :: real
  offer_rate :: real

definition py_truediv :: "real \<Rightarrow> real \<Rightarrow> py_error + real" where
  "py_truediv a b = (if b = 0 then Inl ZeroDivisionError else Inr (a / b))"

definition days30 :: int where
  "days30 = 30 * 86400 * 1000000"

text \<open>The expression \<^verbatim>\<open>(count / total * 100) if total > 0 else 0.0\<close>.\<close>

definition rate_expr :: "nat \<Rightarrow> nat \<Rightarrow> py_error + real" where
  "rate_expr cnt tot =
     (if tot > 0 then bindE (py_truediv (real cnt) (real tot)) (\<lambda>q. Inr (q * 100))
      else Inr 0)"

definition avg_relevance_expr :: "application_db list \<Rightarrow> py_error + real" where
  "avg_relevance_expr applications =
     (if applications \<noteq> [] then
        (let jobs = map (\<lambda>a. the (app_job a))
                      (filter (\<lambda>a. case app_job a of None \<Rightarrow> False
                                   | Some j \<Rightarrow> (case jp_relevance_score j of None \<Rightarrow> False
                                                | Some r \<Rightarrow> r \<noteq> 0)) applications)
         in if jobs \<noteq> [] then
              py_truediv (sum_list (map (\<lambda>j. the (jp_relevance_score j)) jobs)) (real (length jobs))
            else Inr 0)
      else Inr 0)"

definition calculate_kpis :: "application_db list \<Rightarrow> string \<Rightarrow> int \<Rightarrow> py_error + kpi_metrics" where
  "calculate_kpis db uid now =
     (let p_end = now;
          p_start = p_end - days30;
          applications = filter (\<lambda>a. app_user_id a = uid \<and> app_created_at a \<ge> p_start) db;
          tot = length applications;
          viewed = length (filter (\<lambda>a. app_status a \<in> set [''viewed'', ''interview'', ''accepted''])
                             applications);
          interviews = length (filter (\<lambda>a. app_status a \<in> set [''interview'', ''accepted''])
                                 applications);
          offers = length (filter (\<lambda>a. app_status a = ''accepted'') applications)
      in bindE (rate_expr viewed tot) (\<lambda>ctr.
         bindE (rate_expr interviews tot) (\<lambda>irate.
         bindE (rate_expr offers tot) (\<lambda>orate.
         bindE (avg_relevance_expr applications) (\<lambda>avg.
           Inr \<lparr>kpi_user_id = uid, period_start = p_start, period_end = p_end,
                total_applications = tot, applications_viewed = viewed,
                interviews_scheduled = interviews, offers_received = offers,
                average_relevance_score = avg, click_through_rate = ctr,
                interview_rate = irate, offer_rate = orate\<rparr>)))))"

text \<open>The values of the enumeration \<^verbatim>\<open>ApplicationStatus\<close>.\<close>

definition valid_statuses :: "string list" where
  "valid_statuses = [''draft'', ''submitted'', ''viewed'', ''interview'', ''rejected'', ''accepted'']"

datatype status_result = UpdateSuccess string string | UpdateFailure string

text \<open>Assignment to the attributes of the row that \<^verbatim>\<open>.first()\<close> returned.\<close>

fun replace_first :: "('a \<Rightarrow> bool) \<Rightarrow> ('a \<Rightarrow> 'a) \<Rightarrow> 'a list \<Rightarrow> 'a list" where
  "replace_first P f [] = []"
| "replace_first P f (x # xs) = (if P x then f x # xs else x # replace_first P f xs)"

text \<open>\<open>t_updated\<close> and \<open>t_stamp\<close> are the two readings of \<^verbatim>\<open>datetime.now()\<close>.\<close>

definition stamp_application :: "string \<Rightarrow> int \<Rightarrow> int \<Rightarrow> application_db \<Rightarrow> application_db" where
  "stamp_application new_status t_updated t_stamp a =
     (let a1 = a\<lparr>app_status := new_status, app_updated_at := t_updated\<rparr> in
      if new_status = ''viewed'' \<and> app_viewed_at a1 = None then a1\<lparr>app_viewed_at := Some t_stamp\<rparr>
      else if new_status = ''interview'' \<and> app_interview_at a1 = None
        then a1\<lparr>app_interview_at := Some t_stamp\<rparr>
      else a1)"

definition update_application_status ::
  "application_db list \<Rightarrow> string \<Rightarrow> string \<Rightarrow> int \<Rightarrow> int \<Rightarrow> status_result \<times> application_db list" where
  "update_application_status db application_id new_status t_updated t_stamp =
     (case find (\<lambda>a. app_application_id a = application_id) db of
        None \<Rightarrow> (UpdateFailure ''Application not found'', db)
      | Some application \<Rightarrow>
          if new_status \<notin> set valid_statuses
          then (UpdateFailure (''Invalid status: '' @ new_status), db)
          else (UpdateSuccess application_id new_status,
                replace_first (\<lambda>a. app_application_id a = application_id)
                  (stamp_application new_status t_updated t_stamp) db))"

section \<open>Job postings and matches (models/schemas.py)\<close>

record job_posting =
  jb_job_id :: string
  jb_title :: string
  jb_company :: string
  jb_description :: string
  jb_requirements :: "string list"
  jb_skills_required :: "string list"
  jb_location :: "string option"
  jb_salary_min :: "int option"
  jb_salary_max :: "int option"
  jb_seniority_level :: "string option"
  jb_url :: "string option"
  jb_source :: string
  jb_posted_at :: "string option"
  jb_relevance_score :: "real option"

record job_match =
  m_job :: job_posting
  m_relevance_score :: real
  m_match_reasons :: jval
  m_gaps :: jval

definition opt_str :: "string option \<Rightarrow> jval" where
  "opt_str x = (case x of None \<Rightarrow> JNull | Some s \<Rightarrow> JStr s)"

definition opt_int :: "int option \<Rightarrow> jval" where
  "opt_int x = (case x of None \<Rightarrow> JNull | Some i \<Rightarrow> JInt i)"

definition opt_num :: "real option \<Rightarrow> jval" where
  "opt_num x = (case x of None \<Rightarrow> JNull | Some r \<Rightarrow> JNum r)"

text \<open>\<^verbatim>\<open>JobPosting.dict()\<close>.\<close>

definition job_posting_dict :: "job_posting \<Rightarrow> dict" where
  "job_posting_dict j =
     [(''job_id'', JStr (jb_job_id j)),
      (''title'', JStr (jb_title j)),
      (''company'', JStr (jb_company j)),
      (''description'', JStr (jb_description j)),
      (''requirements'', JList (map JStr (jb_requirements j))),
      (''skills_required'', JList (map JStr (jb_skills_required j))),
      (''location'', opt_str (jb_location j)),
      (''salary_min'', opt_int (jb_salary_min j)),
      (''salary_max'', opt_int (jb_salary_max j)),
      (''seniority_level'', opt_str (jb_seniority_level j)),
      (''url'', opt_str (jb_url j)),
      (''source'', JStr (jb_source j)),
      (''posted_at'', opt_str (jb_posted_at j)),
      (''relevance_score'', opt_num (jb_relevance_score j))]"

section \<open>The world outside the agents\<close>

text \<open>
  Every call that leaves the program (r\'esum\'e parser, language model, job search, content
  generator, clock, UUID generator) is recorded in a log, together with every entry into an
  agent's \<^verbatim>\<open>process\<close>. What a collaborator answers is not computed by the model: the
  environment fixes, for each position of the log, the answer a call made at that position
  gets. Quantifying over the environment covers every behaviour of the collaborators.
\<close>

datatype event =
    Invoke string
  | ParseResume
  | GenStrategy
  | SearchJobs
  | RankJobs
  | GenContent
  | Clock
  | Uuid

record env =
  parser_out :: "nat \<Rightarrow> dict"
  strategy_llm :: "nat \<Rightarrow> py_error + dict"
  search_out :: "nat \<Rightarrow> bool \<times> job_posting list"
  rank_llm :: "nat \<Rightarrow> py_error + jval list"
  content_out :: "nat \<Rightarrow> py_error + dict"
  now_str :: "nat \<Rightarrow> string"
  uuid4 :: "nat \<Rightarrow> string"
  b64decode :: "string \<Rightarrow> py_error + string"
  parse_float :: "string \<Rightarrow> real option"
  coerce_str_list :: "jval \<Rightarrow> jval option"
  py_repr :: "jval \<Rightarrow> string"

record world =
  memory :: redis_memory
  log :: "event list"

definition emit :: "event \<Rightarrow> world \<Rightarrow> world" where
  "emit e w = w\<lparr>log := log w @ [e]\<rparr>"

text \<open>\<^verbatim>\<open>a or b\<close> and \<^verbatim>\<open>len(x)\<close>.\<close>

definition py_or :: "jval \<Rightarrow> jval \<Rightarrow> jval" where
  "py_or a b = (if truthy a then a else b)"

fun py_len :: "jval \<Rightarrow> py_error + nat" where
  "py_len (JStr s) = Inr (length s)"
| "py_len (JList xs) = Inr (length xs)"
| "py_len (JDict d) = Inr (length d)"
| "py_len _ = Inl TypeError"

text \<open>\<^verbatim>\<open>x.get(k, default)\<close> on an arbitrary value: only a dictionary has \<^verbatim>\<open>get\<close>.\<close>

fun val_get :: "jval \<Rightarrow> string \<Rightarrow> jval \<Rightarrow> py_error + jval" where
  "val_get (JDict d) k dflt = Inr (dict_get_default d k dflt)"
| "val_get _ k dflt = Inl AttributeError"

definition dict_getitem :: "dict \<Rightarrow> string \<Rightarrow> py_error + jval" where
  "dict_getitem d k = (case map_of d k of Some v \<Rightarrow> Inr v | None \<Rightarrow> Inl KeyError)"

definition str_of_error :: "py_error \<Rightarrow> string" where
  "str_of_error e = (case e of
       ZeroDivisionError \<Rightarrow> ''division by zero''
     | TypeError \<Rightarrow> ''TypeError''
     | AttributeError \<Rightarrow> ''AttributeError''
     | KeyError \<Rightarrow> ''KeyError''
     | ValueError \<Rightarrow> ''ValueError''
     | ValidationError \<Rightarrow> ''ValidationError''
     | UnboundLocalError \<Rightarrow> ''UnboundLocalError''
     | ExternalError \<Rightarrow> ''ExternalError'')"

section \<open>Shared workspace (memory/redis\_memory.py, agents/base\_agent.py)\<close>

definition get_shared_data :: "redis_memory \<Rightarrow> string \<Rightarrow> dict option" where
  "get_shared_data m key =
     (if redis_client m then
        (case storage m key of Some data \<Rightarrow> Some data | None \<Rightarrow> None)
      else storage m key)"

definition set_shared_data :: "redis_memory \<Rightarrow> string \<Rightarrow> dict \<Rightarrow> redis_memory" where
  "set_shared_data m key v = m\<lparr>storage := (storage m)(key \<mapsto> v)\<rparr>"

definition append_agent_output ::
  "env \<Rightarrow> world \<Rightarrow> string \<Rightarrow> string \<Rightarrow> dict \<Rightarrow> (py_error + unit) \<times> world" where
  "append_agent_output en w session_id agent_name output =
     (let key = workspace_key session_id;
          workspace0 = (case get_shared_data (memory w) key of
                          Some d \<Rightarrow> if d \<noteq> [] then d else []
                        | None \<Rightarrow> []);
          workspace1 = (if map_of workspace0 ''agent_outputs'' = None
                        then dict_set workspace0 ''agent_outputs'' (JDict [])
                        else workspace0)
      in case dict_get workspace1 ''agent_outputs'' of
           JDict outs \<Rightarrow>
             (let workspace2 = dict_set workspace1 ''agent_outputs''
                                 (JDict (dict_set outs agent_name (JDict output)));
                  w1 = emit Clock w;
                  workspace3 = dict_set workspace2 ''last_updated'' (JStr (now_str en (length (log w))))
              in (Inr (), w1\<lparr>memory := set_shared_data (memory w1) key workspace3\<rparr>))
         | _ \<Rightarrow> (Inl TypeError, w))"

definition update_context :: "world \<Rightarrow> string \<Rightarrow> dict \<Rightarrow> world" where
  "update_context w session_id updates =
     w\<lparr>memory := update_session_context (memory w) session_id updates\<rparr>"

definition publish_output ::
  "env \<Rightarrow> world \<Rightarrow> string \<Rightarrow> string \<Rightarrow> dict \<Rightarrow> (py_error + unit) \<times> world" where
  "publish_output en w session_id name output = append_agent_output en w session_id name output"

text \<open>The handler \<^verbatim>\<open>except Exception as e: return {"success": False, "error": str(e)}\<close>
  that closes every agent's \<^verbatim>\<open>process\<close>.\<close>

definition agent_catch :: "(py_error + dict) \<times> world \<Rightarrow> dict \<times> world" where
  "agent_catch rw =
     (case rw of
        (Inr r, w) \<Rightarrow> (r, w)
      | (Inl e, w) \<Rightarrow> ([(''success'', JBool False), (''error'', JStr (str_of_error e))], w))"

section \<open>Strategy agent (agents/strategy\_agent.py)\<close>

record strategy_task =
  st_session_id :: string
  st_user_id :: string
  st_resume_text :: jval
  st_resume_pdf :: jval

definition fallback_strategy :: "string \<Rightarrow> dict" where
  "fallback_strategy user_id =
     [(''strategy_id'', JStr (''strategy_'' @ user_id)),
      (''user_id'', JStr user_id),
      (''objectives'', JList [JStr ''Find suitable position'']),
      (''target_positions'', JList [JStr ''Software Developer'']),
      (''target_companies'', JList []),
      (''priority_skills'', JList []),
      (''timeline'', JStr ''3-6 months'')]"

text \<open>The prompt, the model call and the extraction of the JSON object are one external
  call; its answer is the parsed object, or the exception that any of the three raised.\<close>

definition generate_strategy :: "env \<Rightarrow> world \<Rightarrow> string \<Rightarrow> dict \<times> world" where
  "generate_strategy en w user_id =
     (case strategy_llm en (length (log w)) of
        Inr strategy_data \<Rightarrow>
          (dict_set (dict_set strategy_data ''strategy_id'' (JStr (''strategy_'' @ user_id)))
             ''user_id'' (JStr user_id),
           emit GenStrategy w)
      | Inl e \<Rightarrow> (fallback_strategy user_id, emit GenStrategy w))"

text \<open>The local variables of the loop; \<open>strategy\<close> is \<open>None\<close> while the name is unbound.\<close>

record react_state =
  parsed_data :: jval
  resume_text_extracted :: jval
  strategy :: "dict option"

datatype 'a flow = Continue 'a | Break 'a | Return dict | Raise py_error

definition max_iterations :: nat where
  "max_iterations = 3"

definition react_parse ::
  "env \<Rightarrow> jval \<Rightarrow> jval \<Rightarrow> react_state \<Rightarrow> world \<Rightarrow> react_state flow \<times> world" where
  "react_parse en resume_text resume_pdf st w =
     (let parse_result = parser_out en (length (log w));
          w1 = emit ParseResume w
      in if \<not> truthy (dict_get parse_result ''success'') then (Return parse_result, w1)
         else case dict_getitem parse_result ''data'' of
           Inl e \<Rightarrow> (Raise e, w1)
         | Inr pd \<Rightarrow>
            (case (if \<not> truthy resume_text
                   then bindE (val_get pd ''resume_text'' JNull) (\<lambda>t.
                          if truthy t then Inr t else Inr (resume_text_extracted st))
                   else Inr (resume_text_extracted st)) of
               Inl e \<Rightarrow> (Raise e, w1)
             | Inr rte \<Rightarrow>
                (case bindE (val_get pd ''skills'' (JList [])) py_len of
                   Inl e \<Rightarrow> (Raise e, w1)
                 | Inr n \<Rightarrow>
                    (Continue (st\<lparr>parsed_data := pd, resume_text_extracted := rte\<rparr>), w1))))"

text \<open>The test \<^verbatim>\<open>strategy.get("target_positions") and strategy.get("objectives")\<close>.\<close>

definition strategy_complete :: "dict \<Rightarrow> bool" where
  "strategy_complete s \<longleftrightarrow>
     truthy (dict_get s ''target_positions'') \<and> truthy (dict_get s ''objectives'')"

definition react_generate ::
  "env \<Rightarrow> string \<Rightarrow> react_state \<Rightarrow> world \<Rightarrow> react_state flow \<times> world" where
  "react_generate en user_id st w =
     (case bindE (val_get (parsed_data st) ''skills'' (JList [])) py_len of
        Inl e \<Rightarrow> (Raise e, w)
      | Inr n \<Rightarrow>
         (let (s, w1) = generate_strategy en w user_id;
              st1 = st\<lparr>strategy := Some s\<rparr>
          in if strategy_complete s
             then (case py_len (dict_get_default s ''target_positions'' (JList [])) of
                     Inl e \<Rightarrow> (Raise e, w1)
                   | Inr k \<Rightarrow> (Break st1, w1))
             else (Continue st1, w1)))"

definition react_fallback ::
  "env \<Rightarrow> string \<Rightarrow> react_state \<Rightarrow> world \<Rightarrow> react_state flow \<times> world" where
  "react_fallback en user_id st w =
     (if strategy st = None
      then (let (s, w1) = generate_strategy en w user_id in (Break (st\<lparr>strategy := Some s\<rparr>), w1))
      else (Break st, w))"

text \<open>One pass through the body of the \<^verbatim>\<open>while\<close> loop, \<open>i\<close> being \<^verbatim>\<open>iteration\<close> after
  its increment.\<close>

definition react_body ::
  "env \<Rightarrow> string \<Rightarrow> jval \<Rightarrow> jval \<Rightarrow> nat \<Rightarrow> react_state \<Rightarrow> world \<Rightarrow> react_state flow \<times> world" where
  "react_body en user_id resume_text resume_pdf i st w =
     (case (if i = 1 then react_parse en resume_text resume_pdf st w else (Continue st, w)) of
        (Continue st1, w1) \<Rightarrow>
          (case (if i = 2 then react_generate en user_id st1 w1 else (Continue st1, w1)) of
             (Continue st2, w2) \<Rightarrow>
               (if i = 3 then react_fallback en user_id st2 w2 else (Continue st2, w2))
           | other \<Rightarrow> other)
      | other \<Rightarrow> other)"

text \<open>The loop returns the final value of \<^verbatim>\<open>iteration\<close> with the local variables.\<close>

function react_loop ::
  "env \<Rightarrow> string \<Rightarrow> jval \<Rightarrow> jval \<Rightarrow> nat \<Rightarrow> react_state \<Rightarrow> world
     \<Rightarrow> (nat \<times> react_state) flow \<times> world" where
  "react_loop en user_id resume_text resume_pdf iteration st w =
     (if iteration < max_iterations then
        (case react_body en user_id resume_text resume_pdf (iteration + 1) st w of
           (Continue st1, w1) \<Rightarrow> react_loop en user_id resume_text resume_pdf (iteration + 1) st1 w1
         | (Break st1, w1) \<Rightarrow> (Break (iteration + 1, st1), w1)
         | (Return r, w1) \<Rightarrow> (Return r, w1)
         | (Raise e, w1) \<Rightarrow> (Raise e, w1))
      else (Break (iteration, st), w))"
  by pat_completeness auto
termination
  by (relation "measure (\<lambda>(en, user_id, resume_text, resume_pdf, iteration, st, w). max_iterations - iteration)")
    auto

declare react_loop.simps [simp del]

definition strategy_result :: "string \<Rightarrow> nat \<Rightarrow> react_state \<Rightarrow> py_error + dict" where
  "strategy_result user_id iteration st =
     (case strategy st of
        None \<Rightarrow> Inl UnboundLocalError
      | Some s \<Rightarrow>
         (case parsed_data st of
            JDict pd \<Rightarrow>
              Inr [(''success'', JBool True),
                   (''profile'', JDict (dict_update [(''user_id'', JStr user_id),
                                                    (''resume_text'', resume_text_extracted st)] pd)),
                   (''strategy'', JDict s),
                   (''react_iterations'', JInt (int iteration))]
          | _ \<Rightarrow> Inl TypeError))"

text \<open>
  The body of \<^verbatim>\<open>StrategyAgent.process\<close> inside its \<^verbatim>\<open>try\<close>. The block that saves the
  profile and the strategy to PostgreSQL is left out: it swallows its own exceptions and
  touches neither the result nor the session store.
\<close>

definition strategy_process_body ::
  "env \<Rightarrow> world \<Rightarrow> strategy_task \<Rightarrow> dict \<Rightarrow> (py_error + dict) \<times> world" where
  "strategy_process_body en w task context =
     (let session_id = st_session_id task;
          user_id = st_user_id task;
          resume_text = py_or (st_resume_text task) (dict_get_default context ''resume_text'' (JStr ''''));
          resume_pdf = py_or (st_resume_pdf task) (dict_get context ''resume_pdf'')
      in if \<not> truthy resume_text \<and> \<not> truthy resume_pdf
         then (Inr [(''success'', JBool False), (''error'', JStr ''Resume text or PDF is required'')], w)
         else
           (case react_loop en user_id resume_text resume_pdf 0
                   \<lparr>parsed_data = JNull, resume_text_extracted = resume_text, strategy = None\<rparr> w of
              (Return r, w1) \<Rightarrow> (Inr r, w1)
            | (Raise e, w1) \<Rightarrow> (Inl e, w1)
            | (Continue x, w1) \<Rightarrow> (Inl UnboundLocalError, w1)
            | (Break (iteration, st), w1) \<Rightarrow>
               (case strategy_result user_id iteration st of
                  Inl e \<Rightarrow> (Inl e, w1)
                | Inr result \<Rightarrow>
                   (let w2 = update_context w1 session_id
                               [(''profile'', dict_get result ''profile''),
                                (''strategy'', dict_get result ''strategy'')]
                    in case publish_output en w2 session_id ''strategy_agent'' result of
                         (Inl e, w3) \<Rightarrow> (Inl e, w3)
                       | (Inr u, w3) \<Rightarrow> (Inr result, w3)))))"

definition strategy_process :: "env \<Rightarrow> world \<Rightarrow> strategy_task \<Rightarrow> dict \<Rightarrow> dict \<times> world" where
  "strategy_process en w task context =
     agent_catch (strategy_process_body en (emit (Invoke ''strategy_agent'') w) task context)"

section \<open>Market intelligence agent (agents/market\_intelligence\_agent.py)\<close>

text \<open>\<^verbatim>\<open>x[0]\<close> for a value that passed \<^verbatim>\<open>if x:\<close>.\<close>

fun py_first :: "jval \<Rightarrow> py_error + jval" where
  "py_first (JList (x # xs)) = Inr x"
| "py_first (JStr (c # cs)) = Inr (JStr [c])"
| "py_first (JList []) = Inl KeyError"
| "py_first (JStr []) = Inl KeyError"
| "py_first (JDict d) = Inl KeyError"
| "py_first _ = Inl TypeError"

text \<open>The name of one entry of \<^verbatim>\<open>skills[:3]\<close>; an entry that is not a dictionary has
  no attribute \<^verbatim>\<open>name\<close>.\<close>

fun skill_name :: "jval \<Rightarrow> py_error + jval" where
  "skill_name (JDict d) = Inr (dict_get_default d ''name'' (JStr ''''))"
| "skill_name _ = Inl AttributeError"

fun py_slice3 :: "jval \<Rightarrow> py_error + jval list" where
  "py_slice3 (JList xs) = Inr (take 3 xs)"
| "py_slice3 (JStr s) = Inr (map (\<lambda>c. JStr [c]) (take 3 s))"
| "py_slice3 _ = Inl TypeError"

fun mapE :: "('a \<Rightarrow> py_error + 'b) \<Rightarrow> 'a list \<Rightarrow> py_error + 'b list" where
  "mapE f [] = Inr []"
| "mapE f (x # xs) = bindE (f x) (\<lambda>y. bindE (mapE f xs) (\<lambda>ys. Inr (y # ys)))"

text \<open>\<^verbatim>\<open>" ".join(names)\<close>.\<close>

fun py_join :: "jval list \<Rightarrow> py_error + string" where
  "py_join [] = Inr ''''"
| "py_join [JStr s] = Inr s"
| "py_join (JStr s # x # xs) = bindE (py_join (x # xs)) (\<lambda>r. Inr (s @ '' '' @ r))"
| "py_join _ = Inl TypeError"

text \<open>The default query, a Russian word, as its UTF-8 bytes.\<close>

definition default_query :: string where
  "default_query = [CHR 0xD1, CHR 0x80, CHR 0xD0, CHR 0xB0, CHR 0xD0, CHR 0xB7, CHR 0xD1, CHR 0x80,
     CHR 0xD0, CHR 0xB0, CHR 0xD0, CHR 0xB1, CHR 0xD0, CHR 0xBE, CHR 0xD1, CHR 0x82,
     CHR 0xD1, CHR 0x87, CHR 0xD0, CHR 0xB8, CHR 0xD0, CHR 0xBA]"

definition build_search_query :: "jval \<Rightarrow> jval \<Rightarrow> py_error + jval" where
  "build_search_query profile strat =
     bindE (val_get strat ''target_positions'' (JList [])) (\<lambda>target_positions.
       if truthy target_positions then py_first target_positions
       else bindE (val_get profile ''skills'' (JList [])) (\<lambda>skills.
         if truthy skills then
           bindE (py_slice3 skills) (\<lambda>sk.
           bindE (mapE skill_name sk) (\<lambda>skill_names.
           bindE (py_join skill_names) (\<lambda>q. Inr (JStr q))))
         else Inr (JStr default_query)))"

text \<open>\<^verbatim>\<open>float(score)\<close>; the reading of a string is Python's and is taken from the
  environment.\<close>

fun py_float :: "env \<Rightarrow> jval \<Rightarrow> py_error + real" where
  "py_float en (JInt i) = Inr (real_of_int i)"
| "py_float en (JNum r) = Inr r"
| "py_float en (JBool b) = Inr (if b then 1 else 0)"
| "py_float en (JStr s) = (case parse_float en s of Some r \<Rightarrow> Inr r | None \<Rightarrow> Inl ValueError)"
| "py_float en _ = Inl TypeError"

text \<open>\<^verbatim>\<open>job_id in job_dict\<close>: a list or a dictionary is not hashable, and only a string
  can equal a key.\<close>

fun key_in :: "jval \<Rightarrow> (string \<times> 'a) list \<Rightarrow> py_error + bool" where
  "key_in (JStr s) d = Inr (map_of d s \<noteq> None)"
| "key_in (JList xs) d = Inl TypeError"
| "key_in (JDict x) d = Inl TypeError"
| "key_in _ d = Inr False"

text \<open>The constructor \<^verbatim>\<open>JobMatch(...)\<close> with its validation: the score must lie in
  \<open>[0, 1]\<close> and the two lists must validate as lists of strings (pydantic's rules for that
  are the environment's \<open>coerce_str_list\<close>).\<close>

definition make_job_match :: "env \<Rightarrow> job_posting \<Rightarrow> real \<Rightarrow> jval \<Rightarrow> jval \<Rightarrow> py_error + job_match" where
  "make_job_match en job_obj score reasons gaps =
     (if 0 \<le> score \<and> score \<le> 1 then
        (case coerce_str_list en reasons of
           None \<Rightarrow> Inl ValidationError
         | Some rs \<Rightarrow>
            (case coerce_str_list en gaps of
               None \<Rightarrow> Inl ValidationError
             | Some gs \<Rightarrow> Inr \<lparr>m_job = job_obj, m_relevance_score = score,
                               m_match_reasons = rs, m_gaps = gs\<rparr>))
      else Inl ValidationError)"

definition default_match :: "job_posting \<Rightarrow> job_match" where
  "default_match job_obj =
     \<lparr>m_job = job_obj, m_relevance_score = 0.5, m_match_reasons = JList [], m_gaps = JList []\<rparr>"

text \<open>\<^verbatim>\<open>job_dict[job.job_id] = job\<close> for every job.\<close>

definition build_job_dict :: "job_posting list \<Rightarrow> (string \<times> job_posting) list" where
  "build_job_dict jobs = fold (\<lambda>job d. AList.update (jb_job_id job) job d) jobs []"

text \<open>The loop over the model's rankings, with \<^verbatim>\<open>ranked_matches\<close> and
  \<^verbatim>\<open>ranked_job_ids\<close> as accumulators.\<close>

fun rank_loop ::
  "env \<Rightarrow> (string \<times> job_posting) list \<Rightarrow> jval list \<Rightarrow> job_match list \<Rightarrow> string set
     \<Rightarrow> py_error + (job_match list \<times> string set)" where
  "rank_loop en job_dict [] ranked_matches ranked_job_ids = Inr (ranked_matches, ranked_job_ids)"
| "rank_loop en job_dict (ranking # rankings) ranked_matches ranked_job_ids =
     bindE (val_get ranking ''job_id'' JNull) (\<lambda>job_id.
     bindE (val_get ranking ''relevance_score'' (JNum 0.5)) (\<lambda>score.
     bindE (key_in job_id job_dict) (\<lambda>present.
       if present then
         (case job_id of
            JStr jid \<Rightarrow>
              (case map_of job_dict jid of
                 Some job \<Rightarrow>
                   bindE (py_float en score) (\<lambda>f.
                   bindE (val_get ranking ''match_reasons'' (JList [])) (\<lambda>reasons.
                   bindE (val_get ranking ''gaps'' (JList [])) (\<lambda>gaps.
                   bindE (make_job_match en job f reasons gaps) (\<lambda>m.
                     rank_loop en job_dict rankings (ranked_matches @ [m])
                       (insert jid ranked_job_ids)))))
               | None \<Rightarrow> Inl KeyError)
          | _ \<Rightarrow> Inl KeyError)
       else rank_loop en job_dict rankings ranked_matches ranked_job_ids)))"

text \<open>The jobs that the model did not rank, with the default score.\<close>

definition unranked_matches :: "(string \<times> job_posting) list \<Rightarrow> string set \<Rightarrow> job_match list" where
  "unranked_matches job_dict ranked_job_ids =
     map (\<lambda>(job_id, job). default_match job)
       (filter (\<lambda>(job_id, job). job_id \<notin> ranked_job_ids) job_dict)"

text \<open>\<^verbatim>\<open>ranked_matches.sort(key=lambda x: x.relevance_score, reverse=True)\<close>: a stable
  sort, which with \<^verbatim>\<open>reverse=True\<close> still keeps equal keys in their order.\<close>

definition sort_desc :: "job_match list \<Rightarrow> job_match list" where
  "sort_desc ms = sort_key (\<lambda>m. - m_relevance_score m) ms"

text \<open>
  What \<^verbatim>\<open>_rank_jobs\<close> returns for a non-empty job list, given what the \<^verbatim>\<open>try\<close> block
  got from the model: \<open>response\<close> is the parsed JSON array, or the exception raised while
  the prompt was prepared, the model called or its answer parsed.
\<close>

definition merge_rankings :: "env \<Rightarrow> job_posting list \<Rightarrow> py_error + jval list \<Rightarrow> job_match list" where
  "merge_rankings en jobs response =
     (case bindE response (\<lambda>rankings.
             bindE (rank_loop en (build_job_dict jobs) rankings [] {}) (\<lambda>(ranked_matches, ranked_job_ids).
               Inr (sort_desc (ranked_matches @ unranked_matches (build_job_dict jobs) ranked_job_ids)))) of
        Inr ranked \<Rightarrow> ranked
      | Inl e \<Rightarrow> map default_match jobs)"

definition rank_jobs :: "env \<Rightarrow> world \<Rightarrow> job_posting list \<Rightarrow> job_match list \<times> world" where
  "rank_jobs en w jobs =
     (if jobs = [] then ([], w)
      else (merge_rankings en jobs (rank_llm en (length (log w))), emit RankJobs w))"

definition job_match_dict :: "job_match \<Rightarrow> jval" where
  "job_match_dict m =
     JDict [(''job'', JDict (job_posting_dict (m_job m))),
            (''relevance_score'', JNum (m_relevance_score m)),
            (''match_reasons'', m_match_reasons m),
            (''gaps'', m_gaps m)]"

record agent_task =
  at_session_id :: string
  at_user_id :: string
  at_job_id :: jval

text \<open>
  The body of \<^verbatim>\<open>MarketIntelligenceAgent.process\<close> inside its \<^verbatim>\<open>try\<close>. The block that
  saves the jobs to PostgreSQL and the vector memory is left out: it swallows its own
  exceptions and touches neither the result nor the session store.
\<close>

definition market_process_body ::
  "env \<Rightarrow> world \<Rightarrow> agent_task \<Rightarrow> dict \<Rightarrow> (py_error + dict) \<times> world" where
  "market_process_body en w task context =
     (let session_id = at_session_id task;
          profile = dict_get_default context ''profile'' (JDict []);
          strat = dict_get_default context ''strategy'' (JDict [])
      in case bindE (build_search_query profile strat) (\<lambda>search_query.
              bindE (val_get profile ''location'' JNull) (\<lambda>area.
              bindE (val_get profile ''salary_expectations'' JNull) (\<lambda>salary. Inr search_query))) of
           Inl e \<Rightarrow> (Inl e, w)
         | Inr search_query \<Rightarrow>
            (let (success, jobs) = search_out en (length (log w));
                 w1 = emit SearchJobs w
             in if \<not> success
                then (Inr [(''success'', JBool False),
                           (''jobs'', JList (map (\<lambda>j. JDict (job_posting_dict j)) jobs)),
                           (''count'', JInt (int (length jobs)))], w1)
                else
                  (let (ranked_jobs, w2) = rank_jobs en w1 jobs;
                       jobs_data = map job_match_dict (take 20 ranked_jobs);
                       result = [(''success'', JBool True),
                                 (''jobs'', JList jobs_data),
                                 (''total_found'', JInt (int (length jobs_data))),
                                 (''search_query'', search_query)];
                       w3 = update_context w2 session_id [(''job_matches'', JList jobs_data)]
                   in case publish_output en w3 session_id ''market_intelligence_agent'' result of
                        (Inl e, w4) \<Rightarrow> (Inl e, w4)
                      | (Inr u, w4) \<Rightarrow> (Inr result, w4))))"

definition market_process :: "env \<Rightarrow> world \<Rightarrow> agent_task \<Rightarrow> dict \<Rightarrow> dict \<times> world" where
  "market_process en w task context =
     agent_catch (market_process_body en (emit (Invoke ''market_intelligence_agent'') w) task context)"

section \<open>Personalization agent (agents/personalization\_agent.py)\<close>

text \<open>\<^verbatim>\<open>a == b\<close>: numbers and booleans compare by value; strings and \<^verbatim>\<open>None\<close> compare
  as they are. Lists and dictionaries are compared as written, which is Python's equality
  for lists of strings and for dictionaries with the same key order.\<close>

fun py_num :: "jval \<Rightarrow> real option" where
  "py_num (JBool b) = Some (if b then 1 else 0)"
| "py_num (JInt i) = Some (real_of_int i)"
| "py_num (JNum r) = Some r"
| "py_num _ = None"

definition py_eq :: "jval \<Rightarrow> jval \<Rightarrow> bool" where
  "py_eq a b = (case (py_num a, py_num b) of
                  (Some x, Some y) \<Rightarrow> x = y
                | _ \<Rightarrow> a = b)"

text \<open>What a \<^verbatim>\<open>for\<close> loop over a value visits.\<close>

fun py_iter :: "jval \<Rightarrow> py_error + jval list" where
  "py_iter (JList xs) = Inr xs"
| "py_iter (JStr s) = Inr (map (\<lambda>c. JStr [c]) s)"
| "py_iter (JDict d) = Inr (map (\<lambda>(k, v). JStr k) d)"
| "py_iter _ = Inl TypeError"

text \<open>The search for the job in the stored matches; a match that is not a dictionary
  stands for itself, and a job that is not a dictionary has no attribute \<^verbatim>\<open>job_id\<close>.\<close>

fun find_job :: "jval list \<Rightarrow> jval \<Rightarrow> py_error + jval option" where
  "find_job [] job_id = Inr None"
| "find_job (match # rest) job_id =
     (let job_data = (case match of JDict d \<Rightarrow> dict_get d ''job'' | _ \<Rightarrow> match)
      in case job_data of
           JDict jd \<Rightarrow>
             if py_eq (dict_get jd ''job_id'') job_id then Inr (Some job_data)
             else find_job rest job_id
         | _ \<Rightarrow> Inl AttributeError)"

text \<open>Whether \<^verbatim>\<open>_format_skills\<close> raises. The text it builds only goes into the prompt of
  the content generator, so the model keeps the control flow and drops the text.\<close>

fun skill_joinable :: "jval \<Rightarrow> bool" where
  "skill_joinable (JDict d) =
     (truthy (dict_get_default d ''level'' (JStr ''''))
      \<or> (case dict_get_default d ''name'' (JStr '''') of JStr s \<Rightarrow> True | _ \<Rightarrow> False))"
| "skill_joinable _ = True"

definition format_skills :: "jval \<Rightarrow> py_error + unit" where
  "format_skills skills =
     (if \<not> truthy skills then Inr ()
      else bindE (py_iter skills) (\<lambda>items.
             if list_all skill_joinable items then Inr () else Inl TypeError))"

definition py_str :: "env \<Rightarrow> jval \<Rightarrow> string" where
  "py_str en v = (case v of JStr s \<Rightarrow> s | _ \<Rightarrow> py_repr en v)"

text \<open>
  The body of \<^verbatim>\<open>PersonalizationAgent.process\<close> inside its \<^verbatim>\<open>try\<close>. The block that
  saves the application to PostgreSQL is left out: it swallows its own exceptions and
  touches neither the result nor the session store.
\<close>

definition personalization_process_body ::
  "env \<Rightarrow> world \<Rightarrow> agent_task \<Rightarrow> dict \<Rightarrow> (py_error + dict) \<times> world" where
  "personalization_process_body en w task context =
     (let session_id = at_session_id task;
          job_id = at_job_id task;
          user_id = at_user_id task;
          profile = dict_get_default context ''profile'' (JDict []);
          job_matches = dict_get_default context ''job_matches'' (JList [])
      in case bindE (py_iter job_matches) (\<lambda>ms. find_job ms job_id) of
           Inl e \<Rightarrow> (Inl e, w)
         | Inr job \<Rightarrow>
            if (case job of None \<Rightarrow> True | Some j \<Rightarrow> \<not> truthy j)
            then (Inr [(''success'', JBool False),
                       (''error'', JStr (''Job '' @ py_str en job_id @ '' not found in matches''))], w)
            else
              (case bindE (val_get profile ''skills'' (JList [])) (\<lambda>skills.
                    bindE (format_skills skills) (\<lambda>u.
                    bindE (val_get profile ''seniority'' (JStr ''middle'')) (\<lambda>s. Inr ()))) of
                 Inl e \<Rightarrow> (Inl e, w)
               | Inr u \<Rightarrow>
                  (case content_out en (length (log w)) of
                     Inl e \<Rightarrow> (Inl e, emit GenContent w)
                   | Inr cover_letter_result \<Rightarrow>
                      (let w1 = emit GenContent w in
                       case content_out en (length (log w1)) of
                         Inl e \<Rightarrow> (Inl e, emit GenContent w1)
                       | Inr adapted_resume_result \<Rightarrow>
                          (let w2 = emit GenContent w1;
                               application =
                                 [(''application_id'',
                                     JStr (''app_'' @ user_id @ ''_'' @ py_str en job_id)),
                                  (''user_id'', JStr user_id),
                                  (''job_id'', job_id),
                                  (''status'', JStr ''draft''),
                                  (''cover_letter'',
                                     if truthy (dict_get cover_letter_result ''success'')
                                     then dict_get cover_letter_result ''content'' else JNull),
                                  (''adapted_resume'',
                                     if truthy (dict_get adapted_resume_result ''success'')
                                     then dict_get adapted_resume_result ''content'' else JNull)];
                               result =
                                 [(''success'', JBool True),
                                  (''application'', JDict application),
                                  (''cover_letter_generated'',
                                     dict_get_default cover_letter_result ''success'' (JBool False)),
                                  (''resume_adapted'',
                                     dict_get_default adapted_resume_result ''success'' (JBool False))];
                               w3 = update_context w2 session_id [(''application'', JDict application)]
                           in case publish_output en w3 session_id ''personalization_agent'' result of
                                (Inl e, w4) \<Rightarrow> (Inl e, w4)
                              | (Inr u, w4) \<Rightarrow> (Inr result, w4))))))"

definition personalization_process :: "env \<Rightarrow> world \<Rightarrow> agent_task \<Rightarrow> dict \<Rightarrow> dict \<times> world" where
  "personalization_process en w task context =
     agent_catch (personalization_process_body en (emit (Invoke ''personalization_agent'') w) task context)"

section \<open>Orchestrator (agents/orchestrator.py)\<close>

record task_request =
  req_task_type :: string
  req_user_id :: string
  req_session_id :: "string option"
  req_input_data :: dict

text \<open>
  The local variable \<^verbatim>\<open>context\<close> of a workflow. With Redis it is a copy of what the store
  holds. With the fallback store it is the stored dictionary itself: what the workflow
  writes into it is in the store at once (\<open>alias_write\<close>), and what an agent writes into
  the store is in it at once (\<open>alias_read\<close>).
\<close>

definition alias_write :: "world \<Rightarrow> string \<Rightarrow> dict \<Rightarrow> world" where
  "alias_write w session_id context =
     (if redis_client (memory w) then w
      else w\<lparr>memory := set_session_context (memory w) session_id context\<rparr>)"

definition alias_read :: "world \<Rightarrow> string \<Rightarrow> dict \<Rightarrow> dict" where
  "alias_read w session_id context =
     (if redis_client (memory w) then context
      else (case get_session_context (memory w) session_id of
              Some stored \<Rightarrow> stored
            | None \<Rightarrow> context))"

text \<open>\<^verbatim>\<open>context["agent_trace"].append(name)\<close>.\<close>

definition trace_append :: "dict \<Rightarrow> string \<Rightarrow> py_error + dict" where
  "trace_append context name =
     (case map_of context ''agent_trace'' of
        None \<Rightarrow> Inl KeyError
      | Some (JList t) \<Rightarrow> Inr (dict_set context ''agent_trace'' (JList (t @ [JStr name])))
      | Some other \<Rightarrow> Inl AttributeError)"

text \<open>\<^verbatim>\<open>str(uuid.uuid4())\<close>.\<close>

definition new_uuid :: "env \<Rightarrow> world \<Rightarrow> string \<times> world" where
  "new_uuid en w = (uuid4 en (length (log w)), emit Uuid w)"

text \<open>The decoding of a base64 r\'esum\'e; bytes are written as a string.\<close>

definition decode_resume_pdf :: "env \<Rightarrow> dict \<Rightarrow> jval" where
  "decode_resume_pdf en input_data =
     (let v = dict_get input_data ''resume_pdf'' in
      if truthy v then
        (case v of
           JStr s \<Rightarrow> (case b64decode en s of Inr bytes \<Rightarrow> JStr bytes | Inl e \<Rightarrow> v)
         | _ \<Rightarrow> v)
      else JNull)"

definition strategy_task_of :: "env \<Rightarrow> task_request \<Rightarrow> string \<Rightarrow> strategy_task" where
  "strategy_task_of en task_request session_id =
     \<lparr>st_session_id = session_id,
      st_user_id = req_user_id task_request,
      st_resume_text = dict_get_default (req_input_data task_request) ''resume_text'' (JStr ''''),
      st_resume_pdf = decode_resume_pdf en (req_input_data task_request)\<rparr>"

definition status_of :: "dict \<Rightarrow> jval" where
  "status_of result = (if truthy (dict_get result ''success'') then JStr ''completed'' else JStr ''failed'')"

definition analyze_profile ::
  "env \<Rightarrow> world \<Rightarrow> task_request \<Rightarrow> string \<Rightarrow> (py_error + dict) \<times> world" where
  "analyze_profile en w task_request session_id =
     (case get_session_context (memory w) session_id of
        None \<Rightarrow> (Inl TypeError, w)
      | Some context0 \<Rightarrow>
         (case trace_append context0 ''strategy_agent'' of
            Inl e \<Rightarrow> (Inl e, w)
          | Inr context1 \<Rightarrow>
             (let w1 = alias_write w session_id context1;
                  task = strategy_task_of en task_request session_id;
                  (result, w2) = strategy_process en w1 task context1;
                  context2 = alias_read w2 session_id context1;
                  w3 = w2\<lparr>memory := update_session_context (memory w2) session_id context2\<rparr>;
                  (task_id, w4) = new_uuid en w3
              in (Inr [(''task_id'', JStr task_id),
                       (''session_id'', JStr session_id),
                       (''status'', status_of result),
                       (''result'', JDict result),
                       (''agent_trace'', dict_get context2 ''agent_trace'')], w4))))"

text \<open>The second half of \<^verbatim>\<open>_find_jobs\<close>, from the comment \<^verbatim>\<open># Run market intelligence agent\<close>
  on.\<close>

definition run_market ::
  "env \<Rightarrow> world \<Rightarrow> task_request \<Rightarrow> string \<Rightarrow> dict \<Rightarrow> (py_error + dict) \<times> world" where
  "run_market en w task_request session_id context =
     (case trace_append context ''market_intelligence_agent'' of
        Inl e \<Rightarrow> (Inl e, w)
      | Inr context1 \<Rightarrow>
         (let w1 = alias_write w session_id context1;
              market_task = \<lparr>at_session_id = session_id, at_user_id = req_user_id task_request,
                             at_job_id = JNull\<rparr>;
              (result, w2) = market_process en w1 market_task context1;
              context2 = alias_read w2 session_id context1;
              w3 = w2\<lparr>memory := update_session_context (memory w2) session_id context2\<rparr>;
              (task_id, w4) = new_uuid en w3
          in (Inr [(''task_id'', JStr task_id),
                   (''session_id'', JStr session_id),
                   (''status'', status_of result),
                   (''result'', JDict result),
                   (''agent_trace'', dict_get context2 ''agent_trace'')], w4)))"

definition find_jobs ::
  "env \<Rightarrow> world \<Rightarrow> task_request \<Rightarrow> string \<Rightarrow> (py_error + dict) \<times> world" where
  "find_jobs en w task_request session_id =
     (case get_session_context (memory w) session_id of
        None \<Rightarrow> (Inl TypeError, w)
      | Some context0 \<Rightarrow>
         if map_of context0 ''profile'' = None then
           (case trace_append context0 ''strategy_agent'' of
              Inl e \<Rightarrow> (Inl e, w)
            | Inr context1 \<Rightarrow>
               (let w1 = alias_write w session_id context1;
                    strategy_task = strategy_task_of en task_request session_id;
                    (strategy_result, w2) = strategy_process en w1 strategy_task context1
                in if \<not> truthy (dict_get strategy_result ''success'') then
                     (let context2 = alias_read w2 session_id context1;
                          (task_id, w3) = new_uuid en w2
                      in (Inr [(''task_id'', JStr task_id),
                               (''session_id'', JStr session_id),
                               (''status'', JStr ''failed''),
                               (''error'', JStr ''Profile analysis failed''),
                               (''agent_trace'', dict_get context2 ''agent_trace'')], w3))
                   else
                     (case get_session_context (memory w2) session_id of
                        None \<Rightarrow> (Inl TypeError, w2)
                      | Some context3 \<Rightarrow> run_market en w2 task_request session_id context3)))
         else run_market en w task_request session_id context0)"

definition create_application ::
  "env \<Rightarrow> world \<Rightarrow> task_request \<Rightarrow> string \<Rightarrow> (py_error + dict) \<times> world" where
  "create_application en w task_request session_id =
     (case get_session_context (memory w) session_id of
        None \<Rightarrow> (Inl TypeError, w)
      | Some context0 \<Rightarrow>
         if map_of context0 ''job_matches'' = None then
           (let (task_id, w1) = new_uuid en w
            in (Inr [(''task_id'', JStr task_id),
                     (''session_id'', JStr session_id),
                     (''status'', JStr ''failed''),
                     (''error'', JStr ''Job matches not found. Run find_jobs first.''),
                     (''agent_trace'', dict_get_default context0 ''agent_trace'' (JList []))], w1))
         else
           (case trace_append context0 ''personalization_agent'' of
              Inl e \<Rightarrow> (Inl e, w)
            | Inr context1 \<Rightarrow>
               (let w1 = alias_write w session_id context1;
                    personalization_task =
                      \<lparr>at_session_id = session_id, at_user_id = req_user_id task_request,
                       at_job_id = dict_get (req_input_data task_request) ''job_id''\<rparr>;
                    (result, w2) = personalization_process en w1 personalization_task context1;
                    context2 = alias_read w2 session_id context1;
                    w3 = w2\<lparr>memory := update_session_context (memory w2) session_id context2\<rparr>;
                    (task_id, w4) = new_uuid en w3
                in (Inr [(''task_id'', JStr task_id),
                         (''session_id'', JStr session_id),
                         (''status'', status_of result),
                         (''result'', JDict result),
                         (''agent_trace'', dict_get context2 ''agent_trace'')], w4))))"

text \<open>The job id and the job data of one stored match. A match that is not a dictionary
  has no attribute \<^verbatim>\<open>job\<close>, which the second assignment of the \<^verbatim>\<open>else\<close> branch reads
  without a guard.\<close>

definition job_ref :: "jval \<Rightarrow> py_error + (jval \<times> dict)" where
  "job_ref job_match =
     (case job_match of
        JDict d \<Rightarrow>
          (case dict_get_default d ''job'' (JDict []) of
             JDict job_data \<Rightarrow> Inr (dict_get job_data ''job_id'', job_data)
           | other \<Rightarrow> Inl AttributeError)
      | other \<Rightarrow> Inl AttributeError)"

text \<open>The loop over \<^verbatim>\<open>top_jobs\<close>, with \<^verbatim>\<open>applications\<close> as accumulator.\<close>

fun create_applications ::
  "env \<Rightarrow> task_request \<Rightarrow> string \<Rightarrow> jval list \<Rightarrow> jval list \<Rightarrow> world
     \<Rightarrow> (py_error + jval list) \<times> world" where
  "create_applications en task_request session_id [] applications w = (Inr applications, w)"
| "create_applications en task_request session_id (job_match # top_jobs) applications w =
     (case job_ref job_match of
        Inl e \<Rightarrow> (Inl e, w)
      | Inr (job_id, job_data) \<Rightarrow>
         if \<not> truthy job_id
         then create_applications en task_request session_id top_jobs applications w
         else
           (let app_task = task_request\<lparr>req_input_data := [(''job_id'', job_id)]\<rparr>
            in case create_application en w app_task session_id of
                 (Inl e, w1) \<Rightarrow> (Inl e, w1)
               | (Inr app_result, w1) \<Rightarrow>
                  if dict_get app_result ''status'' = JStr ''completed''
                  then create_applications en task_request session_id top_jobs
                         (applications @
                            [JDict [(''job_id'', job_id),
                                    (''job_title'', dict_get_default job_data ''title'' (JStr '''')),
                                    (''company'', dict_get_default job_data ''company'' (JStr '''')),
                                    (''application'',
                                       dict_get_default app_result ''result'' (JDict []))]]) w1
                  else create_applications en task_request session_id top_jobs applications w1))"

text \<open>With the fallback store the list under \<^verbatim>\<open>agent_trace\<close> of an earlier step's result
  is the stored list itself, so it shows the entries appended since.\<close>

definition settle_trace :: "world \<Rightarrow> string \<Rightarrow> dict \<Rightarrow> dict" where
  "settle_trace w session_id step_result =
     (if redis_client (memory w) then step_result
      else (case get_session_context (memory w) session_id of
              Some stored \<Rightarrow>
                (case map_of stored ''agent_trace'' of
                   Some t \<Rightarrow> dict_set step_result ''agent_trace'' t
                 | None \<Rightarrow> step_result)
            | None \<Rightarrow> step_result))"

definition full_journey ::
  "env \<Rightarrow> world \<Rightarrow> task_request \<Rightarrow> string \<Rightarrow> (py_error + dict) \<times> world" where
  "full_journey en w task_request session_id =
     (case analyze_profile en w task_request session_id of
        (Inl e, w1) \<Rightarrow> (Inl e, w1)
      | (Inr analyze_result, w1) \<Rightarrow>
         if dict_get analyze_result ''status'' \<noteq> JStr ''completed'' then (Inr analyze_result, w1)
         else
           (case find_jobs en w1 task_request session_id of
              (Inl e, w2) \<Rightarrow> (Inl e, w2)
            | (Inr find_jobs_result, w2) \<Rightarrow>
               if dict_get find_jobs_result ''status'' \<noteq> JStr ''completed''
               then (Inr find_jobs_result, w2)
               else
                 (case get_session_context (memory w2) session_id of
                    None \<Rightarrow> (Inl AttributeError, w2)
                  | Some context \<Rightarrow>
                     (let job_matches = dict_get_default context ''job_matches'' (JList [])
                      in case (if truthy job_matches
                               then (case py_slice3 job_matches of
                                       Inl e \<Rightarrow> (Inl e, w2)
                                     | Inr top_jobs \<Rightarrow>
                                        (case create_applications en task_request session_id
                                                top_jobs [] w2 of
                                           (Inl e, w3) \<Rightarrow> (Inl e, w3)
                                         | (Inr applications, w3) \<Rightarrow>
                                            (Inr [(''applications'', JList applications),
                                                  (''applications_count'',
                                                     JInt (int (length applications)))], w3)))
                               else (Inr [], w2)) of
                           (Inl e, w3) \<Rightarrow> (Inl e, w3)
                         | (Inr extra, w3) \<Rightarrow>
                            (let results =
                                   [(''profile_analysis'',
                                       JDict (settle_trace w3 session_id analyze_result)),
                                    (''job_search'',
                                       JDict (settle_trace w3 session_id find_jobs_result))] @ extra;
                                 (task_id, w4) = new_uuid en w3
                             in (Inr [(''task_id'', JStr task_id),
                                      (''session_id'', JStr session_id),
                                      (''status'', JStr ''completed''),
                                      (''result'', JDict results),
                                      (''agent_trace'',
                                         dict_get_default (alias_read w3 session_id context)
                                           ''agent_trace'' (JList []))], w4))))))"

text \<open>The session id of a request: the given one unless it is missing or empty.\<close>

definition request_session :: "env \<Rightarrow> world \<Rightarrow> task_request \<Rightarrow> string \<times> world" where
  "request_session en w task_request =
     (case req_session_id task_request of
        Some s \<Rightarrow> if s \<noteq> [] then (s, w) else new_uuid en w
      | None \<Rightarrow> new_uuid en w)"

definition initial_context :: "task_request \<Rightarrow> dict" where
  "initial_context task_request =
     [(''user_id'', JStr (req_user_id task_request)),
      (''task_type'', JStr (req_task_type task_request)),
      (''agent_trace'', JList [])]"

text \<open>The \<^verbatim>\<open>try\<close> block of \<^verbatim>\<open>execute_task\<close>.\<close>

definition dispatch ::
  "env \<Rightarrow> world \<Rightarrow> task_request \<Rightarrow> string \<Rightarrow> (py_error + dict) \<times> world" where
  "dispatch en w task_request session_id =
     (let task_type = req_task_type task_request in
      if task_type = ''analyze_profile'' then analyze_profile en w task_request session_id
      else if task_type = ''find_jobs'' then find_jobs en w task_request session_id
      else if task_type = ''create_application'' then create_application en w task_request session_id
      else if task_type = ''full_journey'' then full_journey en w task_request session_id
      else (Inr [(''success'', JBool False),
                 (''error'', JStr (''Unknown task type: '' @ task_type)),
                 (''session_id'', JStr session_id)], w))"

definition execute_task :: "env \<Rightarrow> world \<Rightarrow> task_request \<Rightarrow> dict \<times> world" where
  "execute_task en w task_request =
     (let (session_id, w0) = request_session en w task_request;
          w1 = w0\<lparr>memory := set_session_context (memory w0) session_id (initial_context task_request)\<rparr>
      in case dispatch en w1 task_request session_id of
           (Inr r, w2) \<Rightarrow> (r, w2)
         | (Inl e, w2) \<Rightarrow>
            ([(''success'', JBool False),
              (''error'', JStr (str_of_error e)),
              (''session_id'', JStr session_id)], w2))"

section \<open>Notions used to state the properties\<close>




text \<open>The agents entered, in order, according to a log.\<close>

fun invoked :: "event list \<Rightarrow> string list" where
  "invoked [] = []"
| "invoked (Invoke a # es) = a # invoked es"
| "invoked (e # es) = invoked es"

section \<open>Sample data\<close>

definition kpi_app1 :: application_db where
  "kpi_app1 = \<lparr>app_application_id = ''app_u1_j1'', app_user_id = ''u1'', app_job_id = ''j1'',
           app_status = ''viewed'', app_viewed_at = Some 150, app_interview_at = None,
           app_created_at = 100, app_updated_at = 150, app_job = None\<rparr>"

definition kpi_app2 :: application_db where
  "kpi_app2 = \<lparr>app_application_id = ''app_u1_j2'', app_user_id = ''u1'', app_job_id = ''j2'',
           app_status = ''draft'', app_viewed_at = None, app_interview_at = None,
           app_created_at = 120, app_updated_at = 120, app_job = None\<rparr>"

definition cx_parser_out :: dict where
  "cx_parser_out = [(''success'', JBool True),
     (''data'', JDict [(''skills'', JList []), (''seniority'', JStr ''middle''),
                      (''resume_text'', JStr ''Python developer, five years'')])]"

definition cx_incomplete :: dict where
  "cx_incomplete = [(''objectives'', JList [JStr ''grow'']), (''target_positions'', JList [])]"

definition cx_complete :: dict where
  "cx_complete = [(''objectives'', JList [JStr ''grow'']), (''target_positions'', JList [JStr ''Engineer''])]"

definition cx_env :: env where
  "cx_env = \<lparr>parser_out = (\<lambda>n. cx_parser_out),
            strategy_llm = (\<lambda>n. if n = 2 then Inr cx_incomplete else Inr cx_complete),
            search_out = (\<lambda>n. (True, [])),
            rank_llm = (\<lambda>n. Inr []),
            content_out = (\<lambda>n. Inl ExternalError),
            now_str = (\<lambda>n. ''2024-01-01 00:00:00''),
            uuid4 = (\<lambda>n. ''uuid''),
            b64decode = (\<lambda>s. Inr s),
            parse_float = (\<lambda>s. None),
            coerce_str_list = (\<lambda>v. Some v),
            py_repr = (\<lambda>v. ''None'')\<rparr>"

definition cx_world :: world where
  "cx_world = \<lparr>memory = \<lparr>redis_client = True, storage = Map.empty\<rparr>, log = []\<rparr>"

definition cx_task :: strategy_task where
  "cx_task = \<lparr>st_session_id = ''s1'', st_user_id = ''u1'',
              st_resume_text = JStr ''Python developer, five years'', st_resume_pdf = JNull\<rparr>"


definition cx_st0 :: react_state where
  "cx_st0 = \<lparr>parsed_data = JNull, resume_text_extracted = JStr ''Python developer, five years'',
             strategy = None\<rparr>"

definition cx_st1 :: react_state where
  "cx_st1 = cx_st0\<lparr>parsed_data := dict_get cx_parser_out ''data''\<rparr>"

definition cx_w1 :: world where
  "cx_w1 = cx_world\<lparr>log := [Invoke ''strategy_agent'', ParseResume]\<rparr>"

definition cx_w2 :: world where
  "cx_w2 = cx_world\<lparr>log := [Invoke ''strategy_agent'', ParseResume, GenStrategy]\<rparr>"

definition cx_tag :: "dict \<Rightarrow> dict" where
  "cx_tag s = s @ [(''strategy_id'', JStr ''strategy_u1''), (''user_id'', JStr ''u1'')]"

definition cx_env_complete :: env where
  "cx_env_complete = cx_env\<lparr>strategy_llm := (\<lambda>n. Inr cx_complete)\<rparr>"







definition sample_request :: "string \<Rightarrow> task_request" where
  "sample_request task_type =
     \<lparr>req_task_type = task_type, req_user_id = ''u1'', req_session_id = Some ''s1'',
      req_input_data = [(''resume_text'', JStr ''Python developer, five years''),
                        (''job_id'', JStr ''j1'')]\<rparr>"

definition fresh_world :: "bool \<Rightarrow> string \<Rightarrow> world" where
  "fresh_world redis task_type =
     \<lparr>memory = set_session_context \<lparr>redis_client = redis, storage = Map.empty\<rparr> ''s1''
                  (initial_context (sample_request task_type)),
      log = []\<rparr>"

section \<open>Properties of the session store\<close>

lemma map_of_dict_set: "map_of (dict_set d k v) = (map_of d)(k \<mapsto> v)"
  by (simp add: dict_set_def update_conv')

lemma map_of_dict_update_absent:
  "k \<notin> fst ` set u \<Longrightarrow> map_of (dict_update d u) k = map_of d k"
  unfolding dict_update_def
  by (induction u arbitrary: d) (auto simp: map_of_dict_set)

lemma keys_dict_set: "fst ` set (dict_set d k v) = insert k (fst ` set d)"
  by (simp add: dict_set_def dom_update)

lemma keys_dict_update: "fst ` set (dict_update d u) = fst ` set d \<union> fst ` set u"
  unfolding dict_update_def
  by (induction u arbitrary: d) (simp_all add: keys_dict_set split_beta)

lemma map_of_dict_update_present:
  "distinct (map fst u) \<Longrightarrow> (k, v) \<in> set u \<Longrightarrow> map_of (dict_update d u) k = Some v"
  unfolding dict_update_def
proof (induction u arbitrary: d)
  case Nil
  then show ?case by simp
next
  case (Cons p u)
  obtain k' v' where p: "p = (k', v')" by (cases p)
  show ?case
  proof (cases "(k, v) \<in> set u")
    case True
    with Cons show ?thesis by simp
  next
    case False
    with Cons.prems p have kv: "k' = k" "v' = v" by auto
    with Cons.prems p have "k \<notin> fst ` set u" by auto
    then have "map_of (dict_update (dict_set d k v) u) k = map_of (dict_set d k v) k"
      by (rule map_of_dict_update_absent)
    then show ?thesis using p kv by (simp add: dict_update_def map_of_dict_set)
  qed
qed

lemma get_set_session_context:
  "get_session_context (set_session_context m sid c) sid' = (if sid' = sid then Some c else get_session_context m sid')"
  by (auto simp: get_session_context_def set_session_context_def session_key_def Let_def
      split: option.splits)

text \<open>
  Claim C10. \<^verbatim>\<open>update_session_context\<close> merges: a key that the update does not mention
  keeps the value it had, a key that the update mentions gets the update's value, no other
  session changes, and on a session without a stored context the result holds exactly the
  keys of the update.
\<close>

theorem update_session_context_merges:
  "(\<forall>k. k \<notin> fst ` set updates \<longrightarrow>
        map_of (the (get_session_context (update_session_context m sid updates) sid)) k
        = (case get_session_context m sid of Some c \<Rightarrow> map_of c k | None \<Rightarrow> None))
   \<and> (distinct (map fst updates) \<longrightarrow>
        (\<forall>(k, v) \<in> set updates.
           map_of (the (get_session_context (update_session_context m sid updates) sid)) k = Some v))
   \<and> (\<forall>sid'. sid' \<noteq> sid \<longrightarrow>
        get_session_context (update_session_context m sid updates) sid' = get_session_context m sid')
   \<and> get_session_context (update_session_context m sid updates) sid \<noteq> None
   \<and> (get_session_context m sid = None \<longrightarrow>
        fst ` set (the (get_session_context (update_session_context m sid updates) sid))
        = fst ` set updates)"
proof -
  define c0 where "c0 = (case get_session_context m sid of
                       Some c \<Rightarrow> if c \<noteq> [] then c else []
                     | None \<Rightarrow> [])"
  have upd: "update_session_context m sid updates = set_session_context m sid (dict_update c0 updates)"
    by (simp add: update_session_context_def c0_def)
  have c0_map: "map_of c0 k = (case get_session_context m sid of Some c \<Rightarrow> map_of c k | None \<Rightarrow> None)"
    for k
    by (simp add: c0_def split: option.splits)
  have c0_none: "get_session_context m sid = None \<Longrightarrow> c0 = []"
    by (simp add: c0_def)
  show ?thesis
    unfolding upd get_set_session_context
    by (auto simp: map_of_dict_update_absent map_of_dict_update_present keys_dict_update
        c0_none simp flip: c0_map)
qed

theorem update_session_context_merges_witness:
  "''agent_trace'' \<notin> fst ` set [(''profile'', JDict []), (''strategy'', JDict [])]
   \<and> distinct (map fst [(''profile'', JDict []), (''strategy'', JDict [])])
   \<and> map_of (the (get_session_context
        (update_session_context
           \<lparr>redis_client = True,
            storage = [''session:s1'' \<mapsto>
              [(''user_id'', JStr ''u1''), (''task_type'', JStr ''find_jobs''),
               (''agent_trace'', JList [JStr ''strategy_agent'']), (''job_matches'', JList [])]]\<rparr>
           ''s1'' [(''profile'', JDict []), (''strategy'', JDict [])]) ''s1'')) ''agent_trace''
      = Some (JList [JStr ''strategy_agent''])
   \<and> map_of (the (get_session_context
        (update_session_context
           \<lparr>redis_client = True,
            storage = [''session:s1'' \<mapsto>
              [(''user_id'', JStr ''u1''), (''task_type'', JStr ''find_jobs''),
               (''agent_trace'', JList [JStr ''strategy_agent'']), (''job_matches'', JList [])]]\<rparr>
           ''s1'' [(''profile'', JDict []), (''strategy'', JDict [])]) ''s1'')) ''profile''
      = Some (JDict [])
   \<and> ''s2'' \<noteq> ''s1''
   \<and> get_session_context
        (update_session_context
           \<lparr>redis_client = True,
            storage = [''session:s1'' \<mapsto>
              [(''user_id'', JStr ''u1''), (''task_type'', JStr ''find_jobs''),
               (''agent_trace'', JList [JStr ''strategy_agent'']), (''job_matches'', JList [])]]\<rparr>
           ''s1'' [(''profile'', JDict []), (''strategy'', JDict [])]) ''s2'' = None
   \<and> get_session_context \<lparr>redis_client = True, storage = Map.empty\<rparr> ''s1'' = None
   \<and> fst ` set (the (get_session_context
        (update_session_context \<lparr>redis_client = True, storage = Map.empty\<rparr>
           ''s1'' [(''profile'', JDict []), (''strategy'', JDict [])]) ''s1''))
      = {''profile'', ''strategy''}"
proof -
  let ?u = "[(''profile'', JDict []), (''strategy'', JDict [])]"
  let ?m = "\<lparr>redis_client = True,
            storage = [''session:s1'' \<mapsto>
              [(''user_id'', JStr ''u1''), (''task_type'', JStr ''find_jobs''),
               (''agent_trace'', JList [JStr ''strategy_agent'']), (''job_matches'', JList [])]]\<rparr>"
  let ?e = "\<lparr>redis_client = True, storage = Map.empty\<rparr>"
  note a = update_session_context_merges [of ?u ?m "''s1''"]
  note b = update_session_context_merges [of ?u ?e "''s1''"]
  have g: "get_session_context ?m ''s1'' = Some [(''user_id'', JStr ''u1''), (''task_type'', JStr ''find_jobs''),
               (''agent_trace'', JList [JStr ''strategy_agent'']), (''job_matches'', JList [])]"
     "get_session_context ?m ''s2'' = None" "get_session_context ?e ''s1'' = None"
    by (simp_all add: get_session_context_def session_key_def)
  have 1: "map_of (the (get_session_context (update_session_context ?m ''s1'' ?u) ''s1'')) ''agent_trace''
      = Some (JList [JStr ''strategy_agent''])"
    using a[THEN conjunct1, THEN spec, of "''agent_trace''"] by (simp add: g)
  have 2: "map_of (the (get_session_context (update_session_context ?m ''s1'' ?u) ''s1'')) ''profile''
      = Some (JDict [])"
    using a[THEN conjunct2, THEN conjunct1] by simp
  have 3: "get_session_context (update_session_context ?m ''s1'' ?u) ''s2'' = None"
    using a[THEN conjunct2, THEN conjunct2, THEN conjunct1, THEN spec, of "''s2''"] by (simp add: g)
  have 4: "fst ` set (the (get_session_context (update_session_context ?e ''s1'' ?u) ''s1''))
      = {''profile'', ''strategy''}"
    using b[THEN conjunct2, THEN conjunct2, THEN conjunct2, THEN conjunct2] by (auto simp add: g)
  show ?thesis using 1 2 3 4 g by simp
qed

section \<open>Properties of the analytics agent\<close>

lemma rate_expr_ok:
  "rate_expr c t = Inr (if t > 0 then real c / real t * 100 else 0)"
  by (simp add: rate_expr_def py_truediv_def bindE_def)

lemma avg_relevance_expr_ok: "\<exists>r. avg_relevance_expr apps = Inr r"
  by (simp add: avg_relevance_expr_def py_truediv_def Let_def)

lemma rate_bounds: "c \<le> t \<Longrightarrow> 0 \<le> (if t > 0 then real c / real t * 100 else 0) \<and> (if t > 0 then real c / real t * 100 else 0) \<le> 100"
  by (auto simp: divide_le_eq)

text \<open>
  Claim C8. The KPI computation always returns (no division by zero is raised); each of the
  three rates equals count / total * 100 when there is at least one application in the
  period and 0 when there is none, and lies between 0 and 100.
\<close>

theorem calculate_kpis_rates:
  "\<exists>k. calculate_kpis db uid now = Inr k
      \<and> total_applications k
          = length (filter (\<lambda>a. app_user_id a = uid \<and> now - days30 \<le> app_created_at a) db)
      \<and> applications_viewed k
          = length (filter (\<lambda>a. app_status a \<in> {''viewed'', ''interview'', ''accepted''})
              (filter (\<lambda>a. app_user_id a = uid \<and> now - days30 \<le> app_created_at a) db))
      \<and> interviews_scheduled k
          = length (filter (\<lambda>a. app_status a \<in> {''interview'', ''accepted''})
              (filter (\<lambda>a. app_user_id a = uid \<and> now - days30 \<le> app_created_at a) db))
      \<and> offers_received k
          = length (filter (\<lambda>a. app_status a = ''accepted'')
              (filter (\<lambda>a. app_user_id a = uid \<and> now - days30 \<le> app_created_at a) db))
      \<and> (total_applications k > 0 \<longrightarrow>
            click_through_rate k = real (applications_viewed k) / real (total_applications k) * 100
          \<and> interview_rate k = real (interviews_scheduled k) / real (total_applications k) * 100
          \<and> offer_rate k = real (offers_received k) / real (total_applications k) * 100)
      \<and> (total_applications k = 0 \<longrightarrow>
            click_through_rate k = 0 \<and> interview_rate k = 0 \<and> offer_rate k = 0)
      \<and> 0 \<le> click_through_rate k \<and> click_through_rate k \<le> 100
      \<and> 0 \<le> interview_rate k \<and> interview_rate k \<le> 100
      \<and> 0 \<le> offer_rate k \<and> offer_rate k \<le> 100"
proof -
  define apps where "apps = filter (\<lambda>a. app_user_id a = uid \<and> now - days30 \<le> app_created_at a) db"
  define t where "t = length apps"
  define v where "v = length (filter (\<lambda>a. app_status a \<in> {''viewed'', ''interview'', ''accepted''}) apps)"
  define i where "i = length (filter (\<lambda>a. app_status a \<in> {''interview'', ''accepted''}) apps)"
  define f where "f = length (filter (\<lambda>a. app_status a = ''accepted'') apps)"
  obtain avg where avg: "avg_relevance_expr apps = Inr avg"
    using avg_relevance_expr_ok by blast
  have le: "v \<le> t" "i \<le> t" "f \<le> t"
    by (simp_all add: v_def i_def f_def t_def)
  define K where "K = \<lparr>kpi_user_id = uid, period_start = now - days30, period_end = now,
                total_applications = t, applications_viewed = v,
                interviews_scheduled = i, offers_received = f,
                average_relevance_score = avg,
                click_through_rate = (if t > 0 then real v / real t * 100 else 0),
                interview_rate = (if t > 0 then real i / real t * 100 else 0),
                offer_rate = (if t > 0 then real f / real t * 100 else 0)\<rparr>"
  have k: "calculate_kpis db uid now = Inr K"
    unfolding calculate_kpis_def Let_def rate_expr_ok K_def
    using v_def[symmetric] i_def[symmetric] f_def[symmetric]
    by (simp add: bindE_def avg apps_def[symmetric] t_def[symmetric])
  have sel: "total_applications K = t" "applications_viewed K = v" "interviews_scheduled K = i"
    "offers_received K = f"
    "click_through_rate K = (if t > 0 then real v / real t * 100 else 0)"
    "interview_rate K = (if t > 0 then real i / real t * 100 else 0)"
    "offer_rate K = (if t > 0 then real f / real t * 100 else 0)"
    by (simp_all add: K_def)
  have "calculate_kpis db uid now = Inr K
      \<and> total_applications K = t \<and> applications_viewed K = v
      \<and> interviews_scheduled K = i \<and> offers_received K = f
      \<and> (total_applications K > 0 \<longrightarrow>
            click_through_rate K = real (applications_viewed K) / real (total_applications K) * 100
          \<and> interview_rate K = real (interviews_scheduled K) / real (total_applications K) * 100
          \<and> offer_rate K = real (offers_received K) / real (total_applications K) * 100)
      \<and> (total_applications K = 0 \<longrightarrow>
            click_through_rate K = 0 \<and> interview_rate K = 0 \<and> offer_rate K = 0)
      \<and> 0 \<le> click_through_rate K \<and> click_through_rate K \<le> 100
      \<and> 0 \<le> interview_rate K \<and> interview_rate K \<le> 100
      \<and> 0 \<le> offer_rate K \<and> offer_rate K \<le> 100"
    unfolding sel
    using k rate_bounds[OF le(1)] rate_bounds[OF le(2)] rate_bounds[OF le(3)]
    by simp
  then show ?thesis
    unfolding t_def v_def i_def f_def apps_def by (rule exI)
qed

theorem calculate_kpis_rates_witness:
  "\<exists>k. calculate_kpis [kpi_app1, kpi_app2] ''u1'' 200 = Inr k
      \<and> total_applications k = 2 \<and> 0 < total_applications k
      \<and> applications_viewed k = 1
      \<and> click_through_rate k = 50 \<and> interview_rate k = 0 \<and> offer_rate k = 0"
  using calculate_kpis_rates [of "[kpi_app1, kpi_app2]" "''u1''" 200]
  by (auto simp: kpi_app1_def kpi_app2_def days30_def)

lemma find_replace_first:
  "find P xs = Some a \<Longrightarrow> P (f a) \<Longrightarrow> find P (replace_first P f xs) = Some (f a)"
  by (induction xs) (auto split: if_splits)

lemma app_id_stamp [simp]: "app_application_id (stamp_application s t1 t2 a) = app_application_id a"
  by (simp add: stamp_application_def Let_def)

lemma viewed_at_stamp:
  "app_viewed_at (stamp_application s t1 t2 a) =
     (if s = ''viewed'' \<and> app_viewed_at a = None then Some t2 else app_viewed_at a)"
  by (simp add: stamp_application_def Let_def)

lemma interview_at_stamp:
  "app_interview_at (stamp_application s t1 t2 a) =
     (if s = ''interview'' \<and> app_interview_at a = None then Some t2 else app_interview_at a)"
  by (simp add: stamp_application_def Let_def)

lemma update_found:
  assumes "find (\<lambda>a. app_application_id a = aid) db = Some a" and "s \<in> set valid_statuses"
  shows "update_application_status db aid s t1 t2 =
           (UpdateSuccess aid s, replace_first (\<lambda>a. app_application_id a = aid) (stamp_application s t1 t2) db)
         \<and> find (\<lambda>a. app_application_id a = aid) (snd (update_application_status db aid s t1 t2))
             = Some (stamp_application s t1 t2 a)"
proof -
  from assms(1) have "app_application_id a = aid"
    by (auto simp: find_Some_iff)
  then show ?thesis
    using assms by (simp add: update_application_status_def find_replace_first)
qed

text \<open>
  Claim C9. A successful status update stamps \<open>viewed_at\<close> (\<open>interview_at\<close>) only when the
  new status is viewed (interview) and the stamp is still unset; applying the same status a
  second time leaves both stamps as the first application left them.
\<close>

theorem update_status_stamps_once:
  assumes "find (\<lambda>a. app_application_id a = aid) db = Some a"
    and "s \<in> set valid_statuses"
  shows "\<exists>a1 a2.
      find (\<lambda>a. app_application_id a = aid) (snd (update_application_status db aid s t1 t2)) = Some a1
    \<and> app_viewed_at a1 = (if s = ''viewed'' \<and> app_viewed_at a = None then Some t2 else app_viewed_at a)
    \<and> app_interview_at a1 =
        (if s = ''interview'' \<and> app_interview_at a = None then Some t2 else app_interview_at a)
    \<and> find (\<lambda>a. app_application_id a = aid)
         (snd (update_application_status (snd (update_application_status db aid s t1 t2)) aid s t3 t4))
        = Some a2
    \<and> app_viewed_at a2 = app_viewed_at a1
    \<and> app_interview_at a2 = app_interview_at a1"
proof -
  let ?db1 = "snd (update_application_status db aid s t1 t2)"
  let ?a1 = "stamp_application s t1 t2 a"
  have f1: "find (\<lambda>a. app_application_id a = aid) ?db1 = Some ?a1"
    using update_found[OF assms, THEN conjunct2] .
  have f2: "find (\<lambda>a. app_application_id a = aid) (snd (update_application_status ?db1 aid s t3 t4))
      = Some (stamp_application s t3 t4 ?a1)"
    using update_found[OF f1 assms(2), THEN conjunct2] .
  show ?thesis
    unfolding f1 f2 by (simp add: viewed_at_stamp interview_at_stamp)
qed

theorem update_status_stamps_once_witness: "find (\<lambda>a. app_application_id a = ''app_u1_j2'') [kpi_app2] = Some kpi_app2
  \<and> ''viewed'' \<in> set valid_statuses
  \<and> (\<exists>a1 a2. find (\<lambda>a. app_application_id a = ''app_u1_j2'')
         (snd (update_application_status [kpi_app2] ''app_u1_j2'' ''viewed'' 10 11)) = Some a1
       \<and> app_viewed_at a1 = Some 11
       \<and> find (\<lambda>a. app_application_id a = ''app_u1_j2'')
         (snd (update_application_status (snd (update_application_status [kpi_app2] ''app_u1_j2'' ''viewed'' 10 11))
             ''app_u1_j2'' ''viewed'' 20 21)) = Some a2
       \<and> app_viewed_at a2 = Some 11)"
proof -
  have h1: "find (\<lambda>a. app_application_id a = ''app_u1_j2'') [kpi_app2] = Some kpi_app2"
    by (simp add: kpi_app2_def)
  have h2: "''viewed'' \<in> set valid_statuses"
    by (simp add: valid_statuses_def)
  show ?thesis
    using h1 h2 update_status_stamps_once [OF h1 h2, of 10 11 20 21]
    by (auto simp: kpi_app2_def)
qed

section \<open>Properties of the strategy agent\<close>

lemmas cx_defs = cx_env_def cx_world_def cx_task_def cx_parser_out_def cx_incomplete_def cx_complete_def
  cx_st0_def cx_st1_def cx_w1_def cx_w2_def cx_tag_def cx_env_complete_def

lemma react_body_1: "react_body en u rt pdf (Suc 0) st w = react_parse en rt pdf st w"
  by (simp add: react_body_def split: prod.splits flow.splits)

lemma react_body_2: "react_body en u rt pdf (Suc (Suc 0)) st w = react_generate en u st w"
  by (simp add: react_body_def split: prod.splits flow.splits)

lemma react_body_3: "react_body en u rt pdf (Suc (Suc (Suc 0))) st w = react_fallback en u st w"
  by (simp add: react_body_def react_fallback_def split: prod.splits flow.splits)

lemma react_loop_at_3: "react_loop en u rt pdf (Suc (Suc (Suc 0))) st w = (Break (3, st), w)"
  by (subst react_loop.simps) (simp add: max_iterations_def)

lemma react_loop_at_2:
  "react_loop en u rt pdf (Suc (Suc 0)) st w =
     (case react_fallback en u st w of
        (Continue st1, w1) \<Rightarrow> (Break (3, st1), w1)
      | (Break st1, w1) \<Rightarrow> (Break (3, st1), w1)
      | (Return r, w1) \<Rightarrow> (Return r, w1)
      | (Raise e, w1) \<Rightarrow> (Raise e, w1))"
  by (subst react_loop.simps)
    (simp add: max_iterations_def react_body_3 react_loop_at_3 split: prod.splits flow.splits)

lemma react_loop_at_1:
  "react_loop en u rt pdf (Suc 0) st w =
     (case react_generate en u st w of
        (Continue st1, w1) \<Rightarrow> react_loop en u rt pdf (Suc (Suc 0)) st1 w1
      | (Break st1, w1) \<Rightarrow> (Break (2, st1), w1)
      | (Return r, w1) \<Rightarrow> (Return r, w1)
      | (Raise e, w1) \<Rightarrow> (Raise e, w1))"
  by (subst react_loop.simps)
    (simp add: max_iterations_def react_body_2 split: prod.splits flow.splits)

lemma react_loop_at_0:
  "react_loop en u rt pdf 0 st w =
     (case react_parse en rt pdf st w of
        (Continue st1, w1) \<Rightarrow> react_loop en u rt pdf (Suc 0) st1 w1
      | (Break st1, w1) \<Rightarrow> (Break (1, st1), w1)
      | (Return r, w1) \<Rightarrow> (Return r, w1)
      | (Raise e, w1) \<Rightarrow> (Raise e, w1))"
  by (subst react_loop.simps)
    (simp add: max_iterations_def react_body_1 split: prod.splits flow.splits)

lemmas react_loop_unfold = react_loop_at_0 react_loop_at_1 react_loop_at_2

lemma react_parse_skills:
  "react_parse en rt pdf st w = (Continue st1, w1) \<Longrightarrow>
     \<exists>n. bindE (val_get (parsed_data st1) ''skills'' (JList [])) py_len = Inr n"
  by (auto simp: react_parse_def Let_def split: if_splits sum.splits)

lemma react_parse_dict:
  "react_parse en rt pdf st w = (Continue st1, w1) \<Longrightarrow> \<exists>pd. parsed_data st1 = JDict pd"
  by (drule react_parse_skills, cases "parsed_data st1") (auto simp: bindE_def)

lemma generate_strategy_log: "log (snd (generate_strategy en w u)) = log w @ [GenStrategy]"
  by (simp add: generate_strategy_def emit_def split: sum.splits)

text \<open>
  What the loop does once the r\'esum\'e is parsed. Strategy generation is called once, at
  iteration 2. If its strategy lacks non-empty target positions or objectives, the loop goes
  on to iteration 3, where the guard \<^verbatim>\<open>'strategy' not in locals()\<close> is false, so the
  generation is not called again: the loop ends with the strategy of iteration 2 and
  \<open>react_iterations = 3\<close>. If the strategy is complete the loop ends at iteration 2 (or
  raises there, when the length of the target positions cannot be taken).
\<close>

theorem react_loop_iterations:
  assumes parse: "react_parse en resume_text resume_pdf st0 w0 = (Continue st1, w1)"
    and gen: "generate_strategy en w1 user_id = (s, w2)"
  shows "(\<not> strategy_complete s \<longrightarrow>
            react_loop en user_id resume_text resume_pdf 0 st0 w0
              = (Break (3, st1\<lparr>strategy := Some s\<rparr>), w2)
          \<and> (\<exists>r. strategy_result user_id 3 (st1\<lparr>strategy := Some s\<rparr>) = Inr r
                 \<and> dict_get r ''strategy'' = JDict s
                 \<and> dict_get r ''react_iterations'' = JInt 3))
       \<and> (strategy_complete s \<longrightarrow>
            react_loop en user_id resume_text resume_pdf 0 st0 w0
              = (Break (2, st1\<lparr>strategy := Some s\<rparr>), w2)
          \<or> react_loop en user_id resume_text resume_pdf 0 st0 w0 = (Raise TypeError, w2))
       \<and> log w2 = log w1 @ [GenStrategy]"
proof -
  obtain n where n: "bindE (val_get (parsed_data st1) ''skills'' (JList [])) py_len = Inr n"
    using react_parse_skills[OF parse] by blast
  obtain pd where pd: "parsed_data st1 = JDict pd"
    using react_parse_dict[OF parse] by blast
  have lg: "log w2 = log w1 @ [GenStrategy]"
    using generate_strategy_log[of en w1 user_id] gen by simp
  have inc: "react_loop en user_id resume_text resume_pdf 0 st0 w0
              = (Break (3, st1\<lparr>strategy := Some s\<rparr>), w2)" if "\<not> strategy_complete s"
    using that parse gen n
    by (simp add: react_loop_unfold Let_def react_generate_def
        react_fallback_def)
  have res: "\<exists>r. strategy_result user_id 3 (st1\<lparr>strategy := Some s\<rparr>) = Inr r
                 \<and> dict_get r ''strategy'' = JDict s
                 \<and> dict_get r ''react_iterations'' = JInt 3"
    by (simp add: strategy_result_def pd dict_get_def)
  have com: "react_loop en user_id resume_text resume_pdf 0 st0 w0
              = (Break (2, st1\<lparr>strategy := Some s\<rparr>), w2)
          \<or> react_loop en user_id resume_text resume_pdf 0 st0 w0 = (Raise TypeError, w2)"
    if "strategy_complete s"
  proof (cases "py_len (dict_get_default s ''target_positions'' (JList []))")
    case (Inl e)
    then have "e = TypeError"
      by (cases "dict_get_default s ''target_positions'' (JList [])") auto
    with Inl that parse gen n show ?thesis
      by (simp add: react_loop_unfold Let_def react_generate_def)
  next
    case (Inr k)
    with that parse gen n show ?thesis
      by (simp add: react_loop_unfold Let_def react_generate_def)
  qed
  show ?thesis using inc res com lg by blast
qed

text \<open>
  Claim C1. The claim asks for a second call of the strategy generation at iteration 3 when
  the strategy of iteration 2 is incomplete, and the code announces one (it logs
  \<^verbatim>\<open>Strategy incomplete, retrying...\<close>). The code does not make it. With a model that
  answers an incomplete strategy at its first call and would answer a complete one at any
  later call, the agent returns the incomplete strategy of the first call with
  \<open>react_iterations = 3\<close>, and the log holds a single generation.
\<close>

theorem strategy_incomplete_not_retried:
  "dict_get (fst (strategy_process cx_env cx_world cx_task [])) ''react_iterations'' = JInt 3
   \<and> dict_get (fst (strategy_process cx_env cx_world cx_task [])) ''strategy''
       = JDict (cx_incomplete @ [(''strategy_id'', JStr ''strategy_u1''), (''user_id'', JStr ''u1'')])
   \<and> log (snd (strategy_process cx_env cx_world cx_task []))
       = [Invoke ''strategy_agent'', ParseResume, GenStrategy, Clock]
   \<and> strategy_llm cx_env 2 = Inr cx_incomplete
   \<and> strategy_llm cx_env 3 = Inr cx_complete"
  by (simp add: cx_defs strategy_process_def strategy_process_body_def react_loop_unfold
      react_parse_def react_generate_def react_fallback_def
      generate_strategy_def strategy_result_def strategy_complete_def update_context_def publish_output_def
      append_agent_output_def agent_catch_def emit_def py_or_def dict_get_def dict_get_default_def
      dict_getitem_def dict_set_def dict_update_def bindE_def get_shared_data_def set_shared_data_def
      update_session_context_def get_session_context_def set_session_context_def
      session_key_def workspace_key_def Let_def)

theorem react_loop_iterations_witness:
  "react_parse cx_env (JStr ''Python developer, five years'') JNull cx_st0 (emit (Invoke ''strategy_agent'') cx_world)
     = (Continue cx_st1, cx_w1)
   \<and> generate_strategy cx_env cx_w1 ''u1'' = (cx_tag cx_incomplete, cx_w2)
   \<and> \<not> strategy_complete (cx_tag cx_incomplete)
   \<and> react_loop cx_env ''u1'' (JStr ''Python developer, five years'') JNull 0 cx_st0
         (emit (Invoke ''strategy_agent'') cx_world)
       = (Break (3, cx_st1\<lparr>strategy := Some (cx_tag cx_incomplete)\<rparr>), cx_w2)
   \<and> generate_strategy cx_env_complete cx_w1 ''u1'' = (cx_tag cx_complete, cx_w2)
   \<and> strategy_complete (cx_tag cx_complete)
   \<and> react_loop cx_env_complete ''u1'' (JStr ''Python developer, five years'') JNull 0 cx_st0
         (emit (Invoke ''strategy_agent'') cx_world)
       = (Break (2, cx_st1\<lparr>strategy := Some (cx_tag cx_complete)\<rparr>), cx_w2)"
proof -
  let ?rt = "JStr ''Python developer, five years''"
  let ?w0 = "emit (Invoke ''strategy_agent'') cx_world"
  have p1: "react_parse cx_env ?rt JNull cx_st0 ?w0 = (Continue cx_st1, cx_w1)"
    by (simp add: cx_defs react_parse_def emit_def dict_get_def dict_getitem_def bindE_def
        dict_get_default_def Let_def)
  have p2: "react_parse cx_env_complete ?rt JNull cx_st0 ?w0 = (Continue cx_st1, cx_w1)"
    by (simp add: cx_defs react_parse_def emit_def dict_get_def dict_getitem_def bindE_def
        dict_get_default_def Let_def)
  have g1: "generate_strategy cx_env cx_w1 ''u1'' = (cx_tag cx_incomplete, cx_w2)"
    by (simp add: cx_defs generate_strategy_def emit_def dict_set_def)
  have g2: "generate_strategy cx_env_complete cx_w1 ''u1'' = (cx_tag cx_complete, cx_w2)"
    by (simp add: cx_defs generate_strategy_def emit_def dict_set_def)
  have c1: "\<not> strategy_complete (cx_tag cx_incomplete)"
    by (simp add: cx_defs strategy_complete_def dict_get_def)
  have c2: "strategy_complete (cx_tag cx_complete)"
    by (simp add: cx_defs strategy_complete_def dict_get_def)
  have r2: "react_loop cx_env_complete ''u1'' ?rt JNull 0 cx_st0 ?w0 \<noteq> (Raise TypeError, cx_w2)"
    by (simp add: react_loop_unfold p2 react_generate_def g2 c2 [unfolded cx_tag_def cx_complete_def, simplified]
        cx_tag_def cx_complete_def Let_def
        dict_get_default_def bindE_def cx_st1_def cx_parser_out_def dict_get_def)
  show ?thesis
    using react_loop_iterations [OF p1 g1] react_loop_iterations [OF p2 g2] p1 g1 g2 c1 c2 r2
    by simp
qed

section \<open>Properties of the market intelligence agent\<close>



















section \<open>Properties of the orchestrator\<close>

lemma invoked_append: "invoked (xs @ ys) = invoked xs @ invoked ys"
  by (induction xs rule: invoked.induct) simp_all

lemma new_uuid_props:
  "memory (snd (new_uuid en w)) = memory w" "log (snd (new_uuid en w)) = log w @ [Uuid]"
  by (simp_all add: new_uuid_def emit_def)

lemma request_session_props:
  "memory (snd (request_session en w r)) = memory w"
  "invoked (log (snd (request_session en w r))) = invoked (log w)"
  by (simp_all add: request_session_def new_uuid_def emit_def invoked_append split: option.splits)

text \<open>
  Claim C5. On a session whose context has no \<open>job_matches\<close> key,
  \<^verbatim>\<open>create_application\<close> returns a failed status with the message that the job matches
  are missing, enters no agent, and leaves the session store (so the agent trace) as it
  was. Through \<^verbatim>\<open>execute_task\<close> the context is always the fresh one, so the workflow
  fails in this way with an empty trace.
\<close>

theorem create_application_requires_job_matches:
  "(get_session_context (memory w) session_id = Some context
      \<and> map_of context ''job_matches'' = None \<longrightarrow>
      (\<exists>r w'. create_application en w task_request session_id = (Inr r, w')
        \<and> dict_get r ''status'' = JStr ''failed''
        \<and> dict_get r ''error'' = JStr ''Job matches not found. Run find_jobs first.''
        \<and> dict_get r ''agent_trace'' = dict_get_default context ''agent_trace'' (JList [])
        \<and> memory w' = memory w
        \<and> invoked (log w') = invoked (log w)))
   \<and> (req_task_type task_request = ''create_application'' \<longrightarrow>
      (\<exists>r w'. execute_task en w task_request = (r, w')
        \<and> dict_get r ''status'' = JStr ''failed''
        \<and> dict_get r ''error'' = JStr ''Job matches not found. Run find_jobs first.''
        \<and> dict_get r ''agent_trace'' = JList []
        \<and> get_session_context (memory w') (fst (request_session en w task_request))
            = Some (initial_context task_request)
        \<and> invoked (log w') = invoked (log w)))"
proof (intro conjI impI)
  assume "get_session_context (memory w) session_id = Some context
      \<and> map_of context ''job_matches'' = None"
  then show "\<exists>r w'. create_application en w task_request session_id = (Inr r, w')
        \<and> dict_get r ''status'' = JStr ''failed''
        \<and> dict_get r ''error'' = JStr ''Job matches not found. Run find_jobs first.''
        \<and> dict_get r ''agent_trace'' = dict_get_default context ''agent_trace'' (JList [])
        \<and> memory w' = memory w
        \<and> invoked (log w') = invoked (log w)"
    by (simp add: create_application_def new_uuid_def emit_def dict_get_def invoked_append
        split: prod.splits)
next
  assume tt: "req_task_type task_request = ''create_application''"
  obtain sid w0 where rs: "request_session en w task_request = (sid, w0)"
    by (cases "request_session en w task_request")
  have m0: "memory w0 = memory w" and l0: "invoked (log w0) = invoked (log w)"
    using request_session_props[of en w task_request] rs by simp_all
  show "\<exists>r w'. execute_task en w task_request = (r, w')
        \<and> dict_get r ''status'' = JStr ''failed''
        \<and> dict_get r ''error'' = JStr ''Job matches not found. Run find_jobs first.''
        \<and> dict_get r ''agent_trace'' = JList []
        \<and> get_session_context (memory w') (fst (request_session en w task_request))
            = Some (initial_context task_request)
        \<and> invoked (log w') = invoked (log w)"
    using tt l0
    by (simp add: execute_task_def rs dispatch_def create_application_def get_set_session_context
        initial_context_def new_uuid_def emit_def dict_get_def dict_get_default_def invoked_append
        split: prod.splits)
qed

theorem create_application_requires_job_matches_witness:
  "get_session_context (memory (fresh_world True ''create_application'')) ''s1''
     = Some (initial_context (sample_request ''create_application''))
   \<and> map_of (initial_context (sample_request ''create_application'')) ''job_matches'' = None
   \<and> (\<exists>r w'. create_application cx_env (fresh_world True ''create_application'')
                  (sample_request ''create_application'') ''s1'' = (Inr r, w')
          \<and> dict_get r ''status'' = JStr ''failed''
          \<and> dict_get r ''agent_trace'' = JList []
          \<and> invoked (log w') = [])
   \<and> req_task_type (sample_request ''create_application'') = ''create_application''
   \<and> (\<exists>r w'. execute_task cx_env cx_world (sample_request ''create_application'') = (r, w')
          \<and> dict_get r ''status'' = JStr ''failed''
          \<and> invoked (log w') = [])"
proof -
  have h1: "get_session_context (memory (fresh_world True ''create_application'')) ''s1''
     = Some (initial_context (sample_request ''create_application''))"
    by (simp add: fresh_world_def get_set_session_context)
  have h2: "map_of (initial_context (sample_request ''create_application'')) ''job_matches'' = None"
    by (simp add: initial_context_def)
  have h3: "req_task_type (sample_request ''create_application'') = ''create_application''"
    by (simp add: sample_request_def)
  have l: "invoked (log (fresh_world True ''create_application'')) = []" "invoked (log cx_world) = []"
    by (simp_all add: fresh_world_def cx_world_def)
  have t: "dict_get_default (initial_context (sample_request ''create_application'')) ''agent_trace'' (JList [])
      = JList []"
    by (simp add: initial_context_def dict_get_default_def)
  show ?thesis
    using create_application_requires_job_matches
      [of "fresh_world True ''create_application''" "''s1''"
          "initial_context (sample_request ''create_application'')" cx_env
          "sample_request ''create_application''"]
      create_application_requires_job_matches
      [of cx_world "''s1''" "[]" cx_env "sample_request ''create_application''"]
      h1 h2 h3 l t
    by auto
qed

end
